theory Spec2Isabelle
  imports Main
begin

section \<open>Kubernetes API errors\<close>

text \<open>
  The reasons of an API status error that the code distinguishes, and plain Go errors
  (\<^verbatim>\<open>errors.New\<close>, \<^verbatim>\<open>fmt.Errorf\<close>). A Go \<^verbatim>\<open>error\<close> value is an
  \<open>error option\<close>: \<open>None\<close> is \<^verbatim>\<open>nil\<close>.
\<close>

datatype StatusReason =
  NotFound | AlreadyExists | Conflict | Forbidden | Invalid | InternalError | ServerTimeout

datatype error = StatusError StatusReason | PlainError string

text \<open>\<^verbatim>\<open>kerrors.IsNotFound(err)\<close>: false on \<^verbatim>\<open>nil\<close>.\<close>

definition IsNotFound :: "error option \<Rightarrow> bool" where
  "IsNotFound err = (err = Some (StatusError NotFound))"

text \<open>\<^verbatim>\<open>client.IgnoreNotFound(err)\<close>: \<^verbatim>\<open>nil\<close> for a not-found error, else the error itself.\<close>

definition IgnoreNotFound :: "error option \<Rightarrow> error option" where
  "IgnoreNotFound err = (if IsNotFound err then None else err)"

text \<open>
  What a Go panic carries: the error handed to \<^verbatim>\<open>utilruntime.Must\<close>, or the runtime
  error of a method call through a \<^verbatim>\<open>nil\<close> pointer.
\<close>

datatype panic_value = MustFailed error | NilPointerDereference

text \<open>\<^verbatim>\<open>utilruntime.Must(err)\<close> panics when \<open>err\<close> is not \<^verbatim>\<open>nil\<close>.\<close>

definition Must :: "error option \<Rightarrow> panic_value option" where
  "Must err = (case err of None \<Rightarrow> None | Some e \<Rightarrow> Some (MustFailed e))"

text \<open>A Go result pair \<^verbatim>\<open>(value, err)\<close> of which exactly one is set; its error part.\<close>

definition err_of :: "error + 'a \<Rightarrow> error option" where
  "err_of r = (case r of Inl e \<Rightarrow> Some e | Inr _ \<Rightarrow> None)"

section \<open>Ingress objects and their translation\<close>

type_synonym UID = nat

type_synonym IngressSpec = string

text \<open>
  The part of \<^verbatim>\<open>netv1.Ingress\<close> that the reflection reads and writes: object metadata
  (name, namespace, server-assigned UID, labels, and, of the managed fields, the keys of
  the labels that the engine has applied and so owns), the UID of the object it was
  reflected from, and the kind-specific payload.
\<close>

record Ingress =
  Name :: string
  Namespace :: string
  UID :: UID
  Labels :: "string \<rightharpoonup> string"
  Managed :: "string set"
  OriginUID :: "UID option"
  Spec :: IngressSpec

text \<open>
  \<^verbatim>\<open>IngressApplyConfiguration\<close>: the desired state sent with an apply request. It has
  no UID and no other server-populated metadata.
\<close>

record IngressApplyConfiguration =
  ac_Name :: string
  ac_Namespace :: string
  ac_Labels :: "string \<rightharpoonup> string"
  ac_OriginUID :: "UID option"
  ac_Spec :: IngressSpec

text \<open>
  Modelled from the spec: the constants of package \<^verbatim>\<open>forge\<close> are missing from the
  sources at hand. The spec fixes a reserved marker (a key/value pair, kept here as a label)
  as the sole authority for "managed by the engine" and allows kind-specific field
  rewrites; both are parameters of the model.
\<close>

record forge_config =
  MarkerKey :: string
  MarkerValue :: string
  SpecRewrite :: "IngressSpec \<Rightarrow> IngressSpec"

text \<open>
  Modelled from the spec: \<^verbatim>\<open>forge.IsReflected\<close> is missing from the sources at hand.
  A remote object is managed by the engine exactly when it carries the ownership marker.
\<close>

definition IsReflected :: "forge_config \<Rightarrow> Ingress \<Rightarrow> bool" where
  "IsReflected fg obj = (Labels obj (MarkerKey fg) = Some (MarkerValue fg))"

text \<open>
  Modelled from the spec: \<^verbatim>\<open>forge.RemoteIngress\<close> is missing from the sources at hand.
  The translation strips local-only metadata (the apply configuration has none), rewrites
  the namespace to the mapped remote namespace, injects the ownership marker and the local
  UID, and applies the kind-specific field rewrites.
\<close>

definition RemoteIngress :: "forge_config \<Rightarrow> Ingress \<Rightarrow> string \<Rightarrow> IngressApplyConfiguration" where
  "RemoteIngress fg local targetNamespace =
     \<lparr> ac_Name = Name local,
       ac_Namespace = targetNamespace,
       ac_Labels = (Labels local)(MarkerKey fg \<mapsto> MarkerValue fg),
       ac_OriginUID = Some (UID local),
       ac_Spec = SpecRewrite fg (Spec local) \<rparr>"

section \<open>The remote cluster as seen through the typed client\<close>

text \<open>The mutation requests that reach the remote API server, in the order they are sent.\<close>

datatype request =
    ApplyRequest IngressApplyConfiguration
  | DeleteRequest string UID

text \<open>The terminal log lines of \<^verbatim>\<open>Handle\<close>: its reconciliation outcome.\<close>

datatype log_line =
    SkippingReflection
  | BothVanished
  | RemoteDeleted
  | FailedToDelete error
  | FailedToEnforce error
  | SuccessfullyEnforced

text \<open>
  The world outside \<^verbatim>\<open>Handle\<close>: the live Ingress objects of the remote namespace
  (which the cached listers may lag behind), the UID the server gives to the next created
  object, a script saying which of the coming API calls fail and how (\<open>None\<close> or an
  exhausted script: the call is served), the requests sent so far, and the log.
\<close>

record world =
  objects :: "string \<rightharpoonup> Ingress"
  nextUID :: UID
  faults :: "error option list"
  requests :: "request list"
  klog :: "log_line list"

definition log_line :: "log_line \<Rightarrow> world \<Rightarrow> world" where
  "log_line l w = w\<lparr>klog := klog w @ [l]\<rparr>"

text \<open>One API call is sent: it is recorded, and the script says whether it fails.\<close>

definition send :: "request \<Rightarrow> world \<Rightarrow> error option \<times> world" where
  "send rq w =
     (let w' = w\<lparr>requests := requests w @ [rq]\<rparr>
      in case faults w of
           [] \<Rightarrow> (None, w')
         | f # fs \<Rightarrow> (f, w'\<lparr>faults := fs\<rparr>))"

text \<open>
  The labels of a live object that the engine does not own: those that other actors have
  put on it. An absent object has none.
\<close>

definition foreign_labels :: "Ingress option \<Rightarrow> (string \<rightharpoonup> string)" where
  "foreign_labels cur =
     (case cur of
        None \<Rightarrow> Map.empty
      | Some obj \<Rightarrow> (\<lambda>key. if key \<in> Managed obj then None else Labels obj key))"

text \<open>
  Modelled from the spec: the server side of \<^verbatim>\<open>Apply\<close> is outside the repository. The
  spec asks for an upsert of the desired state with merge semantics that leaves the
  fields the engine does not own untouched. An absent object is created from the
  configuration under a server-assigned UID. On a live object the fields the engine owns
  become those of the configuration: the labels it applied before are dropped, the labels
  of the configuration are laid over the labels of the other actors and are from then on
  the ones it owns, and the other applied fields are replaced (name and namespace are
  those of the request, which the server requires to be the object's own). The UID stays.
\<close>

definition applied :: "IngressApplyConfiguration \<Rightarrow> UID \<Rightarrow> Ingress option \<Rightarrow> Ingress" where
  "applied cfg fresh cur =
     (case cur of
        None \<Rightarrow> \<lparr> Name = ac_Name cfg, Namespace = ac_Namespace cfg, UID = fresh,
                  Labels = ac_Labels cfg, Managed = dom (ac_Labels cfg),
                  OriginUID = ac_OriginUID cfg, Spec = ac_Spec cfg \<rparr>
      | Some obj \<Rightarrow> obj\<lparr> Name := ac_Name cfg, Namespace := ac_Namespace cfg,
                         Labels := foreign_labels (Some obj) ++ ac_Labels cfg,
                         Managed := dom (ac_Labels cfg),
                         OriginUID := ac_OriginUID cfg, Spec := ac_Spec cfg \<rparr>)"

text \<open>
  \<^verbatim>\<open>remoteIngressesClient.Apply(ctx, mutation, forge.ApplyOptions())\<close>: the request
  is sent; when it is served the object of that name becomes the applied one, which is
  also the answer. The options (\<^verbatim>\<open>forge.ApplyOptions\<close>, missing from the sources at
  hand) select the apply semantics above and carry no data.
\<close>

definition Apply :: "IngressApplyConfiguration \<Rightarrow> world \<Rightarrow> (error + Ingress) \<times> world" where
  "Apply cfg w =
     (case send (ApplyRequest cfg) w of
        (Some e, w') \<Rightarrow> (Inl e, w')
      | (None, w') \<Rightarrow>
          (let cur = objects w' (ac_Name cfg);
               obj = applied cfg (nextUID w') cur
           in (Inr obj,
               w'\<lparr> objects := (objects w')(ac_Name cfg \<mapsto> obj),
                    nextUID := (if cur = None then Suc (nextUID w') else nextUID w') \<rparr>)))"

text \<open>
  Modelled from the spec: \<^verbatim>\<open>generic.NamespacedReflector.DeleteRemote\<close> is missing from
  the sources at hand. It deletes the remote object with the given UID as a precondition;
  the delete aborts without error when the live object has another UID or is already gone
  (treated as already converged); any other failure of the call is returned.
\<close>

definition DeleteRemote :: "string \<Rightarrow> string \<Rightarrow> UID \<Rightarrow> world \<Rightarrow> error option \<times> world" where
  "DeleteRemote kind name uid w =
     (case send (DeleteRequest name uid) w of
        (Some e, w') \<Rightarrow> (Some e, log_line (FailedToDelete e) w')
      | (None, w') \<Rightarrow>
          (case objects w' name of
             None \<Rightarrow> (None, log_line RemoteDeleted w')
           | Some live \<Rightarrow>
               if UID live = uid
               then (None, log_line RemoteDeleted (w'\<lparr>objects := (objects w')(name := None)\<rparr>))
               else (None, log_line RemoteDeleted w')))"

section \<open>The namespaced Ingress reflector\<close>

definition IngressReflectorName :: string where
  "IngressReflectorName = ''Ingress''"

text \<open>
  \<^verbatim>\<open>NamespacedIngressReflector\<close>: the namespace pair of the embedded
  \<^verbatim>\<open>generic.NamespacedReflector\<close> and the two cached listers, each an interface whose
  \<^verbatim>\<open>Get(name)\<close> yields an object or an error. The typed client of the remote namespace
  acts on the \<^typ>\<open>world\<close>.
\<close>

record NamespacedIngressReflector =
  LocalNamespace :: string
  RemoteNamespace :: string
  localIngresses :: "string \<Rightarrow> error + Ingress"
  remoteIngresses :: "string \<Rightarrow> error + Ingress"

text \<open>How a call of \<^verbatim>\<open>Handle\<close> ends: with a panic, or by returning its \<^verbatim>\<open>error\<close>.\<close>

datatype result = Panicked panic_value | Returned "error option"

text \<open>\<^verbatim>\<open>NamespacedIngressReflector.Handle\<close>, statement by statement.\<close>

definition Handle ::
  "forge_config \<Rightarrow> NamespacedIngressReflector \<Rightarrow> string \<Rightarrow> world \<Rightarrow> result \<times> world" where
  "Handle fg nir name w =
     (let lres = localIngresses nir name; lerr = err_of lres in
      case Must (IgnoreNotFound lerr) of
        Some p \<Rightarrow> (Panicked p, w)
      | None \<Rightarrow>
     (let rres = remoteIngresses nir name; rerr = err_of rres in
      case Must (IgnoreNotFound rerr) of
        Some p \<Rightarrow> (Panicked p, w)
      | None \<Rightarrow>
          if rerr = None \<and> (case rres of Inr remote \<Rightarrow> \<not> IsReflected fg remote | Inl _ \<Rightarrow> False)
          then (Returned None, log_line SkippingReflection w)
          else if IsNotFound lerr then
            (if \<not> IsNotFound rerr then
               (case rres of
                  Inl _ \<Rightarrow> (Panicked NilPointerDereference, w)
                | Inr remote \<Rightarrow>
                    (case DeleteRemote IngressReflectorName name (UID remote) w of
                       (err, w') \<Rightarrow> (Returned err, w')))
             else (Returned None, log_line BothVanished w))
          else
            (case lres of
               Inl _ \<Rightarrow> (Panicked NilPointerDereference, w)
             | Inr local \<Rightarrow>
                 (let mutation = RemoteIngress fg local (RemoteNamespace nir) in
                  case Apply mutation w of
                    (Inl err, w') \<Rightarrow> (Returned (Some err), log_line (FailedToEnforce err) w')
                  | (Inr _, w') \<Rightarrow> (Returned None, log_line SuccessfullyEnforced w')))))"

text \<open>
  The answers of a lister that the comment in \<^verbatim>\<open>Handle\<close> expects ("only not found
  errors can occur"): an object, or a not-found error.
\<close>

definition found_or_absent :: "error + Ingress \<Rightarrow> bool" where
  "found_or_absent r = (case r of Inr _ \<Rightarrow> True | Inl e \<Rightarrow> e = StatusError NotFound)"

definition has_returned :: "result \<Rightarrow> bool" where
  "has_returned r = (case r of Returned _ \<Rightarrow> True | Panicked _ \<Rightarrow> False)"

text \<open>A lister served from an informer cache: it can only answer with the object or "not found".\<close>

definition lister :: "(string \<rightharpoonup> Ingress) \<Rightarrow> string \<Rightarrow> error + Ingress" where
  "lister cache name =
     (case cache name of None \<Rightarrow> Inl (StatusError NotFound) | Some obj \<Rightarrow> Inr obj)"

text \<open>A lister whose reads fail with the given error.\<close>

definition broken_lister :: "error \<Rightarrow> string \<Rightarrow> error + Ingress" where
  "broken_lister e name = Inl e"

text \<open>The next API call of the world is served: the script holds no failure for it.\<close>

definition served :: "world \<Rightarrow> bool" where
  "served w = (case faults w of [] \<Rightarrow> True | f # _ \<Rightarrow> f = None)"

text \<open>The requests that a run from world \<open>w\<close> to world \<open>w'\<close> has sent.\<close>

definition sent :: "world \<Rightarrow> world \<Rightarrow> request list" where
  "sent w w' = drop (length (requests w)) (requests w')"

text \<open>An object carries every field of an apply configuration.\<close>

definition carries :: "Ingress \<Rightarrow> IngressApplyConfiguration \<Rightarrow> bool" where
  "carries obj cfg \<longleftrightarrow>
     Name obj = ac_Name cfg \<and> Namespace obj = ac_Namespace cfg \<and>
     ac_Labels cfg \<subseteq>\<^sub>m Labels obj \<and>
     OriginUID obj = ac_OriginUID cfg \<and> Spec obj = ac_Spec cfg"



section \<open>The Ingress reflector and its fallback policy\<close>

text \<open>
  \<^verbatim>\<open>options.NamespacedOpts\<close>, as far as \<^verbatim>\<open>NewNamespacedIngressReflector\<close> reads it: the
  namespace pair and the two informer factories, each giving the Ingress lister of a
  namespace.
\<close>

record NamespacedOpts =
  opt_LocalNamespace :: string
  opt_RemoteNamespace :: string
  opt_LocalFactory :: "string \<Rightarrow> string \<Rightarrow> error + Ingress"
  opt_RemoteFactory :: "string \<Rightarrow> string \<Rightarrow> error + Ingress"

text \<open>
  \<^verbatim>\<open>NewNamespacedIngressReflector\<close>: the listers of the local and of the remote
  namespace (the registration of the event handlers only feeds the work queue).
\<close>

definition NewNamespacedIngressReflector :: "NamespacedOpts \<Rightarrow> NamespacedIngressReflector" where
  "NewNamespacedIngressReflector opts =
     \<lparr> LocalNamespace = opt_LocalNamespace opts,
       RemoteNamespace = opt_RemoteNamespace opts,
       localIngresses = opt_LocalFactory opts (opt_LocalNamespace opts),
       remoteIngresses = opt_RemoteFactory opts (opt_RemoteNamespace opts) \<rparr>"

text \<open>
  Modelled from the spec: package \<^verbatim>\<open>generic\<close> (\<^verbatim>\<open>NewReflector\<close>,
  \<^verbatim>\<open>WithoutFallback\<close>, the per-kind reflector and its workers) is missing from the
  sources at hand. A kind is registered with a fallback policy flag; the per-kind
  reflector owns one namespaced reflector per active namespace pair, found by the local
  namespace of a key.
\<close>

datatype FallbackPolicy = WithoutFallback | WithFallback

record Reflector =
  rf_Name :: string
  rf_Factory :: "NamespacedOpts \<Rightarrow> NamespacedIngressReflector"
  rf_Fallback :: FallbackPolicy
  rf_Workers :: nat
  rf_Namespaced :: "string \<rightharpoonup> NamespacedIngressReflector"

definition NewReflector ::
  "string \<Rightarrow> (NamespacedOpts \<Rightarrow> NamespacedIngressReflector) \<Rightarrow> FallbackPolicy \<Rightarrow> nat \<Rightarrow> Reflector" where
  "NewReflector name factory fallback workers =
     \<lparr> rf_Name = name, rf_Factory = factory, rf_Fallback = fallback, rf_Workers = workers,
       rf_Namespaced = Map.empty \<rparr>"

text \<open>\<^verbatim>\<open>NewIngressReflector\<close>, from the source: the Ingress kind is registered without fallback.\<close>

definition NewIngressReflector :: "nat \<Rightarrow> Reflector" where
  "NewIngressReflector workers =
     NewReflector IngressReflectorName NewNamespacedIngressReflector WithoutFallback workers"

text \<open>
  Modelled from the spec: starting and stopping the reflection of a namespace pair creates
  and destroys the namespaced reflector of that pair.
\<close>

definition StartNamespace :: "NamespacedOpts \<Rightarrow> Reflector \<Rightarrow> Reflector" where
  "StartNamespace opts r =
     r\<lparr>rf_Namespaced := (rf_Namespaced r)(opt_LocalNamespace opts \<mapsto> rf_Factory r opts)\<rparr>"

definition StopNamespace :: "string \<Rightarrow> Reflector \<Rightarrow> Reflector" where
  "StopNamespace localNamespace r = r\<lparr>rf_Namespaced := (rf_Namespaced r)(localNamespace := None)\<rparr>"

text \<open>
  Modelled from the spec: what a worker hands to the work queue is a classified outcome:
  success, a transient failure (retried with backoff up to a maximum number of attempts)
  or a fatal failure (dropped at once); a panic is no outcome at all.
\<close>

datatype failure = Transient error | Fatal error

datatype outcome = Reconciled | Deferred | Failed

datatype queue_action = MarkDone | RequeueWithBackoff | Drop

definition NamespaceNotResolved :: error where
  "NamespaceNotResolved = PlainError ''remote namespace not resolved''"

text \<open>
  Modelled from the spec: handling a key \<open>(namespace, name)\<close>. With a namespaced
  reflector for the namespace its Handle runs, and an error it returns is a transient
  failure. Without one the remote namespace is not resolved: a fallback-tolerant kind skips
  the key silently (outcome deferred, treated as success), a kind without fallback reports
  a transient failure.
\<close>

definition Reflector_handle ::
  "forge_config \<Rightarrow> Reflector \<Rightarrow> string \<times> string \<Rightarrow> world
     \<Rightarrow> (panic_value + failure option \<times> outcome) \<times> world" where
  "Reflector_handle fg r key w =
     (case rf_Namespaced r (fst key) of
        Some nir \<Rightarrow>
          (case Handle fg nir (snd key) w of
             (Panicked p, w') \<Rightarrow> (Inl p, w')
           | (Returned None, w') \<Rightarrow> (Inr (None, Reconciled), w')
           | (Returned (Some e), w') \<Rightarrow> (Inr (Some (Transient e), Failed), w'))
      | None \<Rightarrow>
          (case rf_Fallback r of
             WithFallback \<Rightarrow> (Inr (None, Deferred), w)
           | WithoutFallback \<Rightarrow> (Inr (Some (Transient NamespaceNotResolved), Failed), w)))"

text \<open>Modelled from the spec: what the work queue does with the outcome of an attempt.\<close>

definition queue_decision :: "nat \<Rightarrow> nat \<Rightarrow> failure option \<Rightarrow> queue_action" where
  "queue_decision maxRetries attempts res =
     (case res of
        None \<Rightarrow> MarkDone
      | Some (Transient _) \<Rightarrow> if attempts < maxRetries then RequeueWithBackoff else Drop
      | Some (Fatal _) \<Rightarrow> Drop)"

section \<open>Adding a cluster: the ForeignCluster resource\<close>

text \<open>\<^verbatim>\<open>ClusterArgs\<close>: the arguments of the add command.\<close>

record ClusterArgs =
  ClusterName :: string
  ClusterToken :: string
  ClusterAuthURL :: string
  ClusterID :: string
  args_Namespace :: string

text \<open>
  \<^verbatim>\<open>discoveryv1alpha1.PeeringEnabledType\<close>, a string type: the empty string of an
  unset field and the three declared values.
\<close>

datatype PeeringEnabledType = PeeringEnabledEmpty | PeeringEnabledAuto | PeeringEnabledNo | PeeringEnabledYes

text \<open>
  The fields of \<^verbatim>\<open>discoveryv1alpha1.ForeignCluster\<close> that the add command reads or
  writes: name and labels of the object metadata and the fields of the spec. The labels
  are kept as the list of their entries, so that two objects can be compared as
  CreateOrUpdate does; the add command never changes the labels of a stored object.
\<close>

record ForeignClusterResource =
  fcr_Name :: string
  fcr_Labels :: "(string \<times> string) list"
  fcr_ClusterID :: string
  fcr_ClusterName :: string
  fcr_ForeignAuthURL :: string
  fcr_OutgoingPeeringEnabled :: PeeringEnabledType
  fcr_IncomingPeeringEnabled :: PeeringEnabledType
  fcr_InsecureSkipTLSVerify :: "bool option"

text \<open>
  \<^verbatim>\<open>discovery.ClusterIDLabel\<close> is declared in a package outside the sources at hand;
  nothing below depends on how the label key is spelled.
\<close>

definition ClusterIDLabel :: string where
  "ClusterIDLabel = ''discovery.liqo.io/cluster-id''"

text \<open>
  Modelled from the spec: the object store of a cluster is an external collaborator
  (read API \<open>Get \<rightarrow> object | NotFound\<close>, mutation API create and update, keyed by name).
  Here it is the API server behind \<^verbatim>\<open>client.Client\<close>: the stored ForeignCluster
  resources by name, a script saying which of the coming calls fail, and the calls made
  so far.
\<close>

datatype client_call =
    GetCall string
  | CreateCall ForeignClusterResource
  | UpdateCall ForeignClusterResource

record apiserver =
  stored :: "string \<rightharpoonup> ForeignClusterResource"
  failures :: "error option list"
  client_calls :: "client_call list"

definition client_call :: "client_call \<Rightarrow> apiserver \<Rightarrow> error option \<times> apiserver" where
  "client_call c s =
     (let s' = s\<lparr>client_calls := client_calls s @ [c]\<rparr>
      in case failures s of
           [] \<Rightarrow> (None, s')
         | f # fs \<Rightarrow> (f, s'\<lparr>failures := fs\<rparr>))"

text \<open>\<^verbatim>\<open>c.Get(ctx, key, obj)\<close>: the stored object, or a not-found error.\<close>

definition client_Get :: "string \<Rightarrow> apiserver \<Rightarrow> (error + ForeignClusterResource) \<times> apiserver" where
  "client_Get key s =
     (case client_call (GetCall key) s of
        (Some e, s') \<Rightarrow> (Inl e, s')
      | (None, s') \<Rightarrow>
          (case stored s' key of
             None \<Rightarrow> (Inl (StatusError NotFound), s')
           | Some obj \<Rightarrow> (Inr obj, s')))"

text \<open>
  \<^verbatim>\<open>c.Create(ctx, obj)\<close>: refused as invalid when the object has no name, and
  refused when an object of that name exists.
\<close>

definition client_Create :: "ForeignClusterResource \<Rightarrow> apiserver \<Rightarrow> error option \<times> apiserver" where
  "client_Create obj s =
     (case client_call (CreateCall obj) s of
        (Some e, s') \<Rightarrow> (Some e, s')
      | (None, s') \<Rightarrow>
          if fcr_Name obj = '''' then (Some (StatusError Invalid), s')
          else
            (case stored s' (fcr_Name obj) of
               Some _ \<Rightarrow> (Some (StatusError AlreadyExists), s')
             | None \<Rightarrow> (None, s'\<lparr>stored := (stored s')(fcr_Name obj \<mapsto> obj)\<rparr>)))"

text \<open>\<^verbatim>\<open>c.Update(ctx, obj)\<close>: replaces the stored object of that name.\<close>

definition client_Update :: "ForeignClusterResource \<Rightarrow> apiserver \<Rightarrow> error option \<times> apiserver" where
  "client_Update obj s =
     (case client_call (UpdateCall obj) s of
        (Some e, s') \<Rightarrow> (Some e, s')
      | (None, s') \<Rightarrow>
          (case stored s' (fcr_Name obj) of
             None \<Rightarrow> (Some (StatusError NotFound), s')
           | Some _ \<Rightarrow> (None, s'\<lparr>stored := (stored s')(fcr_Name obj \<mapsto> obj)\<rparr>)))"

text \<open>
  \<^verbatim>\<open>controllerutil.CreateOrUpdate\<close> of controller-runtime: read the object under the
  key of \<open>obj\<close>; when it does not exist, mutate \<open>obj\<close> and create it; when it exists,
  mutate the object read and update it unless the mutation changed nothing. The mutation
  must not change the key.
\<close>

definition mutate ::
  "(ForeignClusterResource \<Rightarrow> ForeignClusterResource) \<Rightarrow> string \<Rightarrow> ForeignClusterResource
     \<Rightarrow> error + ForeignClusterResource" where
  "mutate f key obj =
     (let obj' = f obj
      in if fcr_Name obj' \<noteq> key
         then Inl (PlainError ''MutateFn cannot mutate object name and/or object namespace'')
         else Inr obj')"

definition CreateOrUpdate ::
  "ForeignClusterResource \<Rightarrow> (ForeignClusterResource \<Rightarrow> ForeignClusterResource) \<Rightarrow> apiserver
     \<Rightarrow> error option \<times> apiserver" where
  "CreateOrUpdate obj f s =
     (let key = fcr_Name obj in
      case client_Get key s of
        (Inl err, s') \<Rightarrow>
          if \<not> IsNotFound (Some err) then (Some err, s')
          else (case mutate f key obj of
                  Inl err \<Rightarrow> (Some err, s')
                | Inr obj' \<Rightarrow> client_Create obj' s')
      | (Inr existing, s') \<Rightarrow>
          (case mutate f key existing of
             Inl err \<Rightarrow> (Some err, s')
           | Inr obj' \<Rightarrow>
               if existing = obj' then (None, s')
               else client_Update obj' s'))"

text \<open>The mutation function that \<^verbatim>\<open>enforceForeignCluster\<close> hands to CreateOrUpdate.\<close>

definition enforce_mutation :: "ClusterArgs \<Rightarrow> ForeignClusterResource \<Rightarrow> ForeignClusterResource" where
  "enforce_mutation t fc =
     (let fc = fc\<lparr>fcr_ClusterID := ClusterID t\<rparr>;
          fc = (if fcr_ClusterName fc = '''' then fc\<lparr>fcr_ClusterName := ClusterName t\<rparr> else fc);
          fc = fc\<lparr>fcr_ForeignAuthURL := ClusterAuthURL t\<rparr>;
          fc = fc\<lparr>fcr_OutgoingPeeringEnabled := PeeringEnabledYes\<rparr>;
          fc = (if fcr_IncomingPeeringEnabled fc = PeeringEnabledEmpty
                then fc\<lparr>fcr_IncomingPeeringEnabled := PeeringEnabledAuto\<rparr> else fc);
          fc = (if fcr_InsecureSkipTLSVerify fc = None
                then fc\<lparr>fcr_InsecureSkipTLSVerify := Some True\<rparr> else fc)
      in fc)"

text \<open>
  \<^verbatim>\<open>enforceForeignCluster\<close>. The helper \<^verbatim>\<open>foreigncluster.GetForeignClusterByID\<close> is
  missing from the sources at hand; it only reads, and its answer is the parameter
  \<open>lookup\<close>. A fresh object has the zero value in every field that is not set.
\<close>

definition enforceForeignCluster ::
  "error + ForeignClusterResource \<Rightarrow> ClusterArgs \<Rightarrow> apiserver \<Rightarrow> error option \<times> apiserver" where
  "enforceForeignCluster lookup t s =
     (case lookup of
        Inl err \<Rightarrow>
          if IsNotFound (Some err)
          then CreateOrUpdate
                 \<lparr> fcr_Name = ClusterName t, fcr_Labels = [(ClusterIDLabel, ClusterID t)],
                   fcr_ClusterID = '''', fcr_ClusterName = '''', fcr_ForeignAuthURL = '''',
                   fcr_OutgoingPeeringEnabled = PeeringEnabledEmpty,
                   fcr_IncomingPeeringEnabled = PeeringEnabledEmpty,
                   fcr_InsecureSkipTLSVerify = None \<rparr>
                 (enforce_mutation t) s
          else (Some err, s)
      | Inr fc \<Rightarrow> CreateOrUpdate fc (enforce_mutation t) s)"

text \<open>The object that CreateOrUpdate mutates: the stored one when there is one, else the one given.\<close>

definition enforced_name :: "error + ForeignClusterResource \<Rightarrow> ClusterArgs \<Rightarrow> string" where
  "enforced_name lookup t = (case lookup of Inl _ \<Rightarrow> ClusterName t | Inr fc \<Rightarrow> fcr_Name fc)"

definition prior_ClusterName :: "error + ForeignClusterResource \<Rightarrow> ClusterArgs \<Rightarrow> apiserver \<Rightarrow> string" where
  "prior_ClusterName lookup t s =
     (case stored s (enforced_name lookup t) of
        Some existing \<Rightarrow> fcr_ClusterName existing
      | None \<Rightarrow> (case lookup of Inl _ \<Rightarrow> '''' | Inr fc \<Rightarrow> fcr_ClusterName fc))"

section \<open>Discovery: ForeignClusters from TXT records\<close>

text \<open>\<^verbatim>\<open>TxtData\<close>: what a discovered cluster announces.\<close>

record TxtData =
  txt_ID :: string
  txt_Name :: string
  txt_Namespace :: string
  txt_ApiUrl :: string

text \<open>\<^verbatim>\<open>v1alpha1.SearchDomain\<close>, as far as the discovery reads it.\<close>

record SearchDomain =
  sd_Name :: string
  sd_UID :: string
  sd_AutoJoin :: bool

text \<open>
  \<^verbatim>\<open>v1alpha1.DiscoveryType\<close>, a string type: the two values the discovery assigns, and
  any other value a stored object may hold.
\<close>

datatype DiscoveryType = LanDiscovery | WanDiscovery | OtherDiscovery string

record OwnerReference =
  or_APIVersion :: string
  or_Kind :: string
  or_Name :: string
  or_UID :: string

record ObjectReference =
  ref_Namespace :: string
  ref_Name :: string

text \<open>
  \<^verbatim>\<open>v1alpha1.ForeignCluster\<close> in the version the discovery is written against: object
  metadata (name, labels, owner references), spec and status. The TTL is taken as a
  mathematical integer: the width of its type is declared outside the sources at hand,
  so the decrement in \<^verbatim>\<open>UpdateTtl\<close> does not wrap at the type's minimum as Go's
  does. No property below depends on the TTL arithmetic.
\<close>

record ForeignCluster =
  fc_Name :: string
  fc_Labels :: "string \<rightharpoonup> string"
  fc_OwnerReferences :: "OwnerReference list"
  fc_ClusterID :: string
  fc_ClusterName :: string
  fc_Namespace :: string
  fc_ApiUrl :: string
  fc_DiscoveryType :: DiscoveryType
  fc_Join :: bool
  fc_Ttl :: int
  fc_CaDataRef :: "ObjectReference option"
  fc_Advertisement :: "ObjectReference option"

text \<open>What a call of the dynamic client returns: a \<^verbatim>\<open>runtime.Object\<close>, to be type-asserted.\<close>

datatype runtime_Object =
    ForeignClusterObj ForeignCluster
  | ForeignClusterListObj "ForeignCluster list"
  | OtherObj

text \<open>
  The calls that the discovery makes on the home cluster, and the ways the script lets a
  call go wrong: it fails with an error, or it is served and answers with an object of an
  unexpected type.
\<close>

datatype api_call =
    ListCall string string
  | CreateFC ForeignCluster
  | UpdateFC string ForeignCluster
  | DeleteFC string
  | DeleteSecret string string
  | DeleteAdvertisement string

datatype fault = Fails error | WrongType

text \<open>
  Modelled from the spec: the object store of a cluster is an external collaborator
  (read API \<open>List(selector) \<rightarrow> sequence of object\<close>, mutation API create, update and
  delete, keyed by name); the client packages that wrap it are missing from the sources
  at hand. Here it is the home cluster behind \<^verbatim>\<open>crdClient\<close> and \<^verbatim>\<open>advClient\<close>: the
  stored ForeignClusters in the order a list call returns them, the secrets (namespace
  and name) and the advertisements (name), the script of faults, and the calls made so
  far.
\<close>

record cluster =
  foreignclusters :: "ForeignCluster list"
  secrets :: "(string \<times> string) list"
  advertisements :: "string list"
  script :: "fault option list"
  calls :: "api_call list"

definition api_call :: "api_call \<Rightarrow> cluster \<Rightarrow> fault option \<times> cluster" where
  "api_call a c =
     (let c' = c\<lparr>calls := calls c @ [a]\<rparr>
      in case script c of
           [] \<Rightarrow> (None, c')
         | f # fs \<Rightarrow> (f, c'\<lparr>script := fs\<rparr>))"

text \<open>The answer of a served call, as the script lets it through.\<close>

definition answer :: "fault option \<Rightarrow> runtime_Object \<Rightarrow> runtime_Object" where
  "answer f obj = (case f of Some WrongType \<Rightarrow> OtherObj | _ \<Rightarrow> obj)"

text \<open>
  \<^verbatim>\<open>Resource("foreignclusters").List\<close> with the label selector \<open>key=value\<close>: the stored
  objects that carry the label.
\<close>

definition List_fc :: "string \<Rightarrow> string \<Rightarrow> cluster \<Rightarrow> (error + runtime_Object) \<times> cluster" where
  "List_fc key val c =
     (case api_call (ListCall key val) c of
        (Some (Fails e), c') \<Rightarrow> (Inl e, c')
      | (f, c') \<Rightarrow>
          (Inr (answer f (ForeignClusterListObj
                  (filter (\<lambda>fc. fc_Labels fc key = Some val) (foreignclusters c')))), c'))"

text \<open>\<^verbatim>\<open>Resource("foreignclusters").Create\<close>: refused when the name is taken.\<close>

definition Create_fc :: "ForeignCluster \<Rightarrow> cluster \<Rightarrow> (error + runtime_Object) \<times> cluster" where
  "Create_fc fc c =
     (case api_call (CreateFC fc) c of
        (Some (Fails e), c') \<Rightarrow> (Inl e, c')
      | (f, c') \<Rightarrow>
          if fc_Name fc \<in> fc_Name ` set (foreignclusters c')
          then (Inl (StatusError AlreadyExists), c')
          else (Inr (answer f (ForeignClusterObj fc)),
                c'\<lparr>foreignclusters := foreignclusters c' @ [fc]\<rparr>))"

text \<open>\<^verbatim>\<open>Resource("foreignclusters").Update(name, obj)\<close>: replaces the stored object of that name.\<close>

definition Update_fc :: "string \<Rightarrow> ForeignCluster \<Rightarrow> cluster \<Rightarrow> (error + runtime_Object) \<times> cluster" where
  "Update_fc name fc c =
     (case api_call (UpdateFC name fc) c of
        (Some (Fails e), c') \<Rightarrow> (Inl e, c')
      | (f, c') \<Rightarrow>
          if name \<notin> fc_Name ` set (foreignclusters c')
          then (Inl (StatusError NotFound), c')
          else (Inr (answer f (ForeignClusterObj fc)),
                c'\<lparr>foreignclusters :=
                      map (\<lambda>old. if fc_Name old = name then fc else old) (foreignclusters c')\<rparr>))"

text \<open>\<^verbatim>\<open>Resource("foreignclusters").Delete(name)\<close>.\<close>

definition Delete_fc :: "string \<Rightarrow> cluster \<Rightarrow> error option \<times> cluster" where
  "Delete_fc name c =
     (case api_call (DeleteFC name) c of
        (Some (Fails e), c') \<Rightarrow> (Some e, c')
      | (_, c') \<Rightarrow>
          if name \<notin> fc_Name ` set (foreignclusters c')
          then (Some (StatusError NotFound), c')
          else (None, c'\<lparr>foreignclusters := filter (\<lambda>old. fc_Name old \<noteq> name) (foreignclusters c')\<rparr>))"

text \<open>\<^verbatim>\<open>Secrets(namespace).Delete(name)\<close> of the core client.\<close>

definition Delete_secret :: "string \<Rightarrow> string \<Rightarrow> cluster \<Rightarrow> error option \<times> cluster" where
  "Delete_secret ns name c =
     (case api_call (DeleteSecret ns name) c of
        (Some (Fails e), c') \<Rightarrow> (Some e, c')
      | (_, c') \<Rightarrow>
          if (ns, name) \<notin> set (secrets c')
          then (Some (StatusError NotFound), c')
          else (None, c'\<lparr>secrets := removeAll (ns, name) (secrets c')\<rparr>))"

text \<open>\<^verbatim>\<open>advClient.Resource("advertisements").Delete(name)\<close>.\<close>

definition Delete_advertisement :: "string \<Rightarrow> cluster \<Rightarrow> error option \<times> cluster" where
  "Delete_advertisement name c =
     (case api_call (DeleteAdvertisement name) c of
        (Some (Fails e), c') \<Rightarrow> (Some e, c')
      | (_, c') \<Rightarrow>
          if name \<notin> set (advertisements c')
          then (Some (StatusError NotFound), c')
          else (None, c'\<lparr>advertisements := removeAll name (advertisements c')\<rparr>))"

text \<open>
  \<^verbatim>\<open>DiscoveryCtrl\<close>: the ID of the local cluster. The method
  \<^verbatim>\<open>ForeignCluster.HasHigherPriority\<close> is declared outside the sources at hand and is a
  parameter of the controller.
\<close>

record DiscoveryCtrl =
  ClusterId :: string
  HasHigherPriority :: "ForeignCluster \<Rightarrow> DiscoveryType \<Rightarrow> bool"

text \<open>\<^verbatim>\<open>GetForeignClusterByID\<close>: the first ForeignCluster labelled with the cluster ID.\<close>

definition GetForeignClusterByID :: "string \<Rightarrow> cluster \<Rightarrow> (error + ForeignCluster) \<times> cluster" where
  "GetForeignClusterByID clusterID c =
     (case List_fc ''cluster-id'' clusterID c of
        (Inl err, c') \<Rightarrow> (Inl err, c')
      | (Inr tmp, c') \<Rightarrow>
          (case tmp of
             ForeignClusterListObj (fc # _) \<Rightarrow> (Inr fc, c')
           | _ \<Rightarrow> (Inl (StatusError NotFound), c')))"

text \<open>The object that \<^verbatim>\<open>createForeign\<close> builds before it calls the API.\<close>

definition newForeignCluster :: "TxtData \<Rightarrow> SearchDomain option \<Rightarrow> DiscoveryType \<Rightarrow> ForeignCluster" where
  "newForeignCluster txtData sd discoveryType =
     (let fc = \<lparr> fc_Name = txt_ID txtData, fc_Labels = Map.empty, fc_OwnerReferences = [],
                 fc_ClusterID = txt_ID txtData, fc_ClusterName = txt_Name txtData,
                 fc_Namespace = txt_Namespace txtData, fc_ApiUrl = txt_ApiUrl txtData,
                 fc_DiscoveryType = discoveryType, fc_Join = False, fc_Ttl = 0,
                 fc_CaDataRef = None, fc_Advertisement = None \<rparr>;
          fc = (case sd of
                  None \<Rightarrow> fc
                | Some s \<Rightarrow>
                    fc\<lparr> fc_Join := sd_AutoJoin s,
                        fc_OwnerReferences :=
                          [\<lparr> or_APIVersion = ''discovery.liqo.io/v1alpha1'', or_Kind = ''SearchDomain'',
                             or_Name = sd_Name s, or_UID = sd_UID s \<rparr>] \<rparr>);
          fc = (if discoveryType = LanDiscovery then fc\<lparr>fc_Ttl := 3\<rparr> else fc)
      in fc)"

text \<open>\<^verbatim>\<open>createForeign\<close>.\<close>

definition createForeign ::
  "TxtData \<Rightarrow> SearchDomain option \<Rightarrow> DiscoveryType \<Rightarrow> cluster \<Rightarrow> (error + ForeignCluster) \<times> cluster" where
  "createForeign txtData sd discoveryType c =
     (case Create_fc (newForeignCluster txtData sd discoveryType) c of
        (Inl err, c') \<Rightarrow> (Inl err, c')
      | (Inr tmp, c') \<Rightarrow>
          (case tmp of
             ForeignClusterObj fc \<Rightarrow> (Inr fc, c')
           | _ \<Rightarrow> (Inl (PlainError ''created object is not a ForeignCluster''), c')))"

text \<open>\<^verbatim>\<open>CheckUpdate\<close>.\<close>

definition CheckUpdate ::
  "DiscoveryCtrl \<Rightarrow> TxtData \<Rightarrow> ForeignCluster \<Rightarrow> DiscoveryType \<Rightarrow> SearchDomain option \<Rightarrow> cluster
     \<Rightarrow> (error + ForeignCluster) \<times> cluster" where
  "CheckUpdate discovery txtData fc discoveryType searchDomain c =
     (if fc_ApiUrl fc \<noteq> txt_ApiUrl txtData \<or> fc_Namespace fc \<noteq> txt_Namespace txtData
         \<or> HasHigherPriority discovery fc discoveryType
      then
        (let fc = fc\<lparr> fc_ApiUrl := txt_ApiUrl txtData, fc_Namespace := txt_Namespace txtData,
                      fc_DiscoveryType := discoveryType \<rparr>;
             fc = (case searchDomain of
                     Some s \<Rightarrow> if discoveryType = WanDiscovery then fc\<lparr>fc_Join := sd_AutoJoin s\<rparr> else fc
                   | None \<Rightarrow> fc)
         in case (case fc_CaDataRef fc of
                    Some ref \<Rightarrow> Delete_secret (ref_Namespace ref) (ref_Name ref) c
                  | None \<Rightarrow> (None, c)) of
              (Some err, c1) \<Rightarrow> (Inl err, c1)
            | (None, c1) \<Rightarrow>
                (let fc = fc\<lparr>fc_CaDataRef := None\<rparr>
                 in case Update_fc (fc_Name fc) fc c1 of
                      (Inl err, c2) \<Rightarrow> (Inl err, c2)
                    | (Inr tmp, c2) \<Rightarrow>
                        (case tmp of
                           ForeignClusterObj fc \<Rightarrow>
                             (case fc_Advertisement fc of
                                Some adv \<Rightarrow>
                                  (let advName = ref_Name adv;
                                       fc = fc\<lparr>fc_Advertisement := None\<rparr>
                                   in case Update_fc (fc_Name fc) fc c2 of
                                        (Inl err, c3) \<Rightarrow> (Inl err, c3)
                                      | (Inr tmp, c3) \<Rightarrow>
                                          (case tmp of
                                             ForeignClusterObj fc \<Rightarrow>
                                               (case Delete_advertisement advName c3 of
                                                  (Some err, c4) \<Rightarrow> (Inl err, c4)
                                                | (None, c4) \<Rightarrow> (Inr fc, c4))
                                           | _ \<Rightarrow>
                                               (Inl (PlainError ''retrieved object is not a ForeignCluster''), c3)))
                              | None \<Rightarrow> (Inr fc, c2))
                         | _ \<Rightarrow> (Inl (PlainError ''retrieved object is not a ForeignCluster''), c2))))
      else (Inr fc, c))"

text \<open>
  The inner loop of \<^verbatim>\<open>UpdateTtl\<close> over the TXT records, for one ForeignCluster: whether
  a record with its cluster ID was found, after resetting a decreased TTL. A failed update
  continues with the next record; a successful one, or a TTL that needs no reset, breaks.
\<close>

fun ttl_refresh :: "TxtData list \<Rightarrow> ForeignCluster \<Rightarrow> cluster \<Rightarrow> bool \<times> ForeignCluster \<times> cluster" where
  "ttl_refresh [] fc c = (False, fc, c)"
| "ttl_refresh (txt # txts) fc c =
     (if txt_ID txt = fc_ClusterID fc then
        (if fc_Ttl fc \<noteq> 3 then
           (let fc = fc\<lparr>fc_Ttl := 3\<rparr>
            in case Update_fc (fc_Name fc) fc c of
                 (Inl err, c') \<Rightarrow> (case ttl_refresh txts fc c' of (_, fc', c'') \<Rightarrow> (True, fc', c''))
               | (Inr _, c') \<Rightarrow> (True, fc, c'))
         else (True, fc, c))
      else ttl_refresh txts fc c)"

text \<open>The outer loop of \<^verbatim>\<open>UpdateTtl\<close> over the listed ForeignClusters.\<close>

fun ttl_items :: "TxtData list \<Rightarrow> ForeignCluster list \<Rightarrow> cluster \<Rightarrow> cluster" where
  "ttl_items txts [] c = c"
| "ttl_items txts (item # items) c =
     (case ttl_refresh txts item c of
        (found, fc, c1) \<Rightarrow>
          if \<not> found then
            (let fc = fc\<lparr>fc_Ttl := fc_Ttl fc - 1\<rparr>
             in if fc_Ttl fc \<le> 0
                then (case Delete_fc (fc_Name fc) c1 of (_, c2) \<Rightarrow> ttl_items txts items c2)
                else (case Update_fc (fc_Name fc) fc c1 of (_, c2) \<Rightarrow> ttl_items txts items c2))
          else ttl_items txts items c1)"

text \<open>\<^verbatim>\<open>UpdateTtl\<close>.\<close>

definition UpdateTtl :: "TxtData list \<Rightarrow> cluster \<Rightarrow> error option \<times> cluster" where
  "UpdateTtl txts c =
     (case List_fc ''discovery-type'' ''LAN'' c of
        (Inl err, c') \<Rightarrow> (Some err, c')
      | (Inr tmp, c') \<Rightarrow>
          (case tmp of
             ForeignClusterListObj items \<Rightarrow> (None, ttl_items txts items c')
           | _ \<Rightarrow> (Some (PlainError ''retrieved object is not a ForeignClusterList''), c')))"

text \<open>The loop of \<^verbatim>\<open>UpdateForeign\<close> over the TXT records.\<close>

fun UpdateForeign_loop ::
  "DiscoveryCtrl \<Rightarrow> TxtData list \<Rightarrow> SearchDomain option \<Rightarrow> DiscoveryType
     \<Rightarrow> ForeignCluster list \<Rightarrow> cluster \<Rightarrow> ForeignCluster list \<times> cluster" where
  "UpdateForeign_loop discovery [] sd discoveryType createdUpdatedForeign c =
     (createdUpdatedForeign, c)"
| "UpdateForeign_loop discovery (txtData # data) sd discoveryType createdUpdatedForeign c =
     (if txt_ID txtData = ClusterId discovery
      then UpdateForeign_loop discovery data sd discoveryType createdUpdatedForeign c
      else
        (case GetForeignClusterByID (txt_ID txtData) c of
           (Inl err, c1) \<Rightarrow>
             if IsNotFound (Some err) then
               (case createForeign txtData sd discoveryType c1 of
                  (Inl err, c2) \<Rightarrow>
                    UpdateForeign_loop discovery data sd discoveryType createdUpdatedForeign c2
                | (Inr fc, c2) \<Rightarrow>
                    UpdateForeign_loop discovery data sd discoveryType (createdUpdatedForeign @ [fc]) c2)
             else UpdateForeign_loop discovery data sd discoveryType createdUpdatedForeign c1
         | (Inr fc, c1) \<Rightarrow>
             (case CheckUpdate discovery txtData fc discoveryType sd c1 of
                (Inl err, c2) \<Rightarrow>
                  UpdateForeign_loop discovery data sd discoveryType createdUpdatedForeign c2
              | (Inr fc, c2) \<Rightarrow>
                  UpdateForeign_loop discovery data sd discoveryType (createdUpdatedForeign @ [fc]) c2)))"

text \<open>\<^verbatim>\<open>UpdateForeign\<close>.\<close>

definition UpdateForeign ::
  "DiscoveryCtrl \<Rightarrow> TxtData list \<Rightarrow> SearchDomain option \<Rightarrow> cluster \<Rightarrow> ForeignCluster list \<times> cluster" where
  "UpdateForeign discovery data sd c =
     (let discoveryType = (if sd = None then LanDiscovery else WanDiscovery)
      in case UpdateForeign_loop discovery data sd discoveryType [] c of
           (createdUpdatedForeign, c') \<Rightarrow>
             if discoveryType = LanDiscovery
             then (createdUpdatedForeign, snd (UpdateTtl data c'))
             else (createdUpdatedForeign, c'))"

text \<open>
  The cluster a ForeignCluster stands for: the one of its \<open>cluster-id\<close> label, under
  which the discovery finds it, or, for an object without that label, the cluster ID of
  its spec.
\<close>

definition cluster_of :: "ForeignCluster \<Rightarrow> string" where
  "cluster_of fc = (case fc_Labels fc ''cluster-id'' of Some cid \<Rightarrow> cid | None \<Rightarrow> fc_ClusterID fc)"

text \<open>A call that creates or updates a ForeignCluster of the cluster \<open>cid\<close>.\<close>

definition writes_for :: "string \<Rightarrow> api_call \<Rightarrow> bool" where
  "writes_for cid a =
     (case a of
        CreateFC fc \<Rightarrow> cluster_of fc = cid
      | UpdateFC _ fc \<Rightarrow> cluster_of fc = cid
      | _ \<Rightarrow> False)"

definition creates_for :: "string \<Rightarrow> api_call \<Rightarrow> bool" where
  "creates_for cid a = (case a of CreateFC fc \<Rightarrow> cluster_of fc = cid | _ \<Rightarrow> False)"

text \<open>The calls that a run from \<open>c\<close> to \<open>c'\<close> has made.\<close>

definition made :: "cluster \<Rightarrow> cluster \<Rightarrow> api_call list" where
  "made c c' = drop (length (calls c)) (calls c')"

text \<open>A run from \<open>c\<close> to \<open>c'\<close> only added calls, none of which satisfies \<open>P\<close>.\<close>

definition avoids :: "(api_call \<Rightarrow> bool) \<Rightarrow> cluster \<Rightarrow> cluster \<Rightarrow> bool" where
  "avoids P c c' \<longleftrightarrow> (\<exists>new. calls c' = calls c @ new \<and> (\<forall>a \<in> set new. \<not> P a))"

definition not_local :: "DiscoveryCtrl \<Rightarrow> TxtData \<Rightarrow> bool" where
  "not_local discovery txtData \<longleftrightarrow> txt_ID txtData \<noteq> ClusterId discovery"

section \<open>Concrete scenarios\<close>

text \<open>
  The namespace pair of the spec's scenarios: \<open>ns-local\<close> is mapped to \<open>ns-remote\<close>.
\<close>

definition scenario_forge :: forge_config where
  "scenario_forge = \<lparr> MarkerKey = ''managed-by'', MarkerValue = ''reflection'', SpecRewrite = (\<lambda>s. s) \<rparr>"

definition scenario_reflector ::
  "(string \<Rightarrow> error + Ingress) \<Rightarrow> (string \<Rightarrow> error + Ingress) \<Rightarrow> NamespacedIngressReflector" where
  "scenario_reflector l r =
     \<lparr> LocalNamespace = ''ns-local'', RemoteNamespace = ''ns-remote'',
       localIngresses = l, remoteIngresses = r \<rparr>"

definition local_web :: Ingress where
  "local_web = \<lparr> Name = ''web'', Namespace = ''ns-local'', UID = 7,
                 Labels = [''app'' \<mapsto> ''shop''], Managed = {}, OriginUID = None,
                 Spec = ''rules-v2'' \<rparr>"

definition foreign_web :: Ingress where
  "foreign_web = \<lparr> Name = ''web'', Namespace = ''ns-remote'', UID = 40,
                   Labels = [''team'' \<mapsto> ''other''], Managed = {}, OriginUID = None,
                   Spec = ''theirs'' \<rparr>"

definition owned_web :: Ingress where
  "owned_web = \<lparr> Name = ''web'', Namespace = ''ns-remote'', UID = 41,
                 Labels = [''managed-by'' \<mapsto> ''reflection''], Managed = {''managed-by''},
                 OriginUID = Some 7, Spec = ''rules-v1'' \<rparr>"

definition world_with :: "(string \<rightharpoonup> Ingress) \<Rightarrow> world" where
  "world_with objs = \<lparr> objects = objs, nextUID = 100, faults = [], requests = [], klog = [] \<rparr>"

text \<open>
  Scenario A of the spec: the local object \<open>web\<close> exists and nothing exists remotely;
  the world after one call of Handle; and the reflector once its remote lister has caught
  up with that world.
\<close>

definition created_reflector :: NamespacedIngressReflector where
  "created_reflector = scenario_reflector (lister [''web'' \<mapsto> local_web]) (lister Map.empty)"

definition after_first_call :: world where
  "after_first_call = snd (Handle scenario_forge created_reflector ''web'' (world_with Map.empty))"

definition refreshed_reflector :: NamespacedIngressReflector where
  "refreshed_reflector =
     created_reflector\<lparr>remoteIngresses := lister (objects after_first_call)\<rparr>"

text \<open>
  The same scenario with the remote API failing the next call, and the scenario of an
  update: the remote object exists and is ours.
\<close>

definition unavailable_world :: world where
  "unavailable_world = (world_with Map.empty)\<lparr>faults := [Some (StatusError ServerTimeout)]\<rparr>"

definition updated_reflector :: NamespacedIngressReflector where
  "updated_reflector = scenario_reflector (lister [''web'' \<mapsto> local_web]) (lister [''web'' \<mapsto> owned_web])"






text \<open>A namespace pair being started on the Ingress reflector.\<close>

definition scenario_opts :: NamespacedOpts where
  "scenario_opts = \<lparr> opt_LocalNamespace = ''ns-local'', opt_RemoteNamespace = ''ns-remote'',
       opt_LocalFactory = (\<lambda>ns. lister Map.empty), opt_RemoteFactory = (\<lambda>ns. lister Map.empty) \<rparr>"

text \<open>The add command for a cluster \<open>id-b\<close>, and a ForeignCluster already known for it.\<close>

definition add_args :: ClusterArgs where
  "add_args = \<lparr> ClusterName = ''remote-b'', ClusterToken = ''token'', ClusterAuthURL = ''https://b:443'',
                ClusterID = ''id-b'', args_Namespace = ''liqo'' \<rparr>"

definition known_cluster :: ForeignClusterResource where
  "known_cluster = \<lparr> fcr_Name = ''cluster-b'', fcr_Labels = [(ClusterIDLabel, ''id-b'')],
       fcr_ClusterID = ''id-b'', fcr_ClusterName = ''bob'', fcr_ForeignAuthURL = ''https://old:443'',
       fcr_OutgoingPeeringEnabled = PeeringEnabledNo, fcr_IncomingPeeringEnabled = PeeringEnabledNo,
       fcr_InsecureSkipTLSVerify = Some False \<rparr>"

definition apiserver_with :: "(string \<rightharpoonup> ForeignClusterResource) \<Rightarrow> apiserver" where
  "apiserver_with objs = \<lparr> stored = objs, failures = [], client_calls = [] \<rparr>"

text \<open>
  The discovery of a home cluster \<open>home-id\<close>: its own TXT record, the record of a peer,
  and a LAN ForeignCluster that stands for the home cluster itself.
\<close>

definition home_ctrl :: DiscoveryCtrl where
  "home_ctrl = \<lparr> ClusterId = ''home-id'', HasHigherPriority = (\<lambda>fc discoveryType. False) \<rparr>"

definition home_txt :: TxtData where
  "home_txt = \<lparr> txt_ID = ''home-id'', txt_Name = ''home'', txt_Namespace = ''liqo'',
                txt_ApiUrl = ''https://home:6443'' \<rparr>"

definition peer_txt :: TxtData where
  "peer_txt = \<lparr> txt_ID = ''peer-id'', txt_Name = ''peer'', txt_Namespace = ''liqo'',
                txt_ApiUrl = ''https://peer:6443'' \<rparr>"

definition home_cluster :: ForeignCluster where
  "home_cluster = \<lparr> fc_Name = ''home'', fc_Labels = [''cluster-id'' \<mapsto> ''home-id'', ''discovery-type'' \<mapsto> ''LAN''],
       fc_OwnerReferences = [], fc_ClusterID = ''home-id'', fc_ClusterName = ''home'',
       fc_Namespace = ''liqo'', fc_ApiUrl = ''https://home:6443'', fc_DiscoveryType = LanDiscovery,
       fc_Join = False, fc_Ttl = 1, fc_CaDataRef = None, fc_Advertisement = None \<rparr>"

definition search_domain :: SearchDomain where
  "search_domain = \<lparr> sd_Name = ''example.org'', sd_UID = ''sd-1'', sd_AutoJoin = True \<rparr>"

definition cluster_with :: "ForeignCluster list \<Rightarrow> cluster" where
  "cluster_with fcs = \<lparr> foreignclusters = fcs, secrets = [], advertisements = [], script = [], calls = [] \<rparr>"

section \<open>Reading the listers\<close>

lemma Must_IgnoreNotFound_None:
  "Must (IgnoreNotFound err) = None \<longleftrightarrow> err = None \<or> err = Some (StatusError NotFound)"
  by (simp add: Must_def IgnoreNotFound_def IsNotFound_def split: option.splits)

lemma Must_IgnoreNotFound_Some:
  "Must (IgnoreNotFound err) = Some p \<longleftrightarrow>
     (\<exists>e. err = Some e \<and> e \<noteq> StatusError NotFound \<and> p = MustFailed e)"
  by (auto simp: Must_def IgnoreNotFound_def IsNotFound_def split: option.splits)

lemmas read_defs = err_of_def Must_def IgnoreNotFound_def IsNotFound_def found_or_absent_def

lemmas scenario_defs = scenario_forge_def scenario_reflector_def local_web_def foreign_web_def
  owned_web_def world_with_def lister_def broken_lister_def

lemmas handle_defs = Handle_def Let_def read_defs Apply_def send_def DeleteRemote_def log_line_def
  applied_def foreign_labels_def RemoteIngress_def IsReflected_def IngressReflectorName_def

lemma Handle_returns_iff:
  "has_returned (fst (Handle fg nir name w)) \<longleftrightarrow>
     found_or_absent (localIngresses nir name) \<and> found_or_absent (remoteIngresses nir name)"
  by (auto simp: Handle_def Let_def read_defs has_returned_def split: sum.splits option.splits prod.splits)

section \<open>The ways a call of Handle can go\<close>

lemma objects_log_line: "objects (log_line l w) = objects w"
  by (simp add: log_line_def)

lemma requests_log_line: "requests (log_line l w) = requests w"
  by (simp add: log_line_def)

lemma Apply_sent: "requests (snd (Apply cfg w)) = requests w @ [ApplyRequest cfg]"
  by (auto simp: Apply_def send_def Let_def split: list.splits option.splits)

lemma sent_append: "requests w' = requests w @ rs \<Longrightarrow> sent w w' = rs"
  by (simp add: sent_def)

lemma Handle_skip:
  assumes "found_or_absent (localIngresses nir name)"
    and "remoteIngresses nir name = Inr remote" and "\<not> IsReflected fg remote"
  shows "Handle fg nir name w = (Returned None, log_line SkippingReflection w)"
  using assms by (auto simp: Handle_def Let_def read_defs split: sum.splits)

lemma Handle_vanished:
  assumes "localIngresses nir name = Inl (StatusError NotFound)"
    and "remoteIngresses nir name = Inl (StatusError NotFound)"
  shows "Handle fg nir name w = (Returned None, log_line BothVanished w)"
  using assms by (simp add: Handle_def Let_def read_defs)

lemma Handle_delete:
  assumes "localIngresses nir name = Inl (StatusError NotFound)"
    and "remoteIngresses nir name = Inr remote" and "IsReflected fg remote"
  shows "Handle fg nir name w =
     (case DeleteRemote IngressReflectorName name (UID remote) w of (err, w') \<Rightarrow> (Returned err, w'))"
  using assms by (simp add: Handle_def Let_def read_defs)

lemma DeleteRemote_objects:
  "objects (snd (DeleteRemote kind name uid w)) =
     (if served w \<and> (\<exists>live. objects w name = Some live \<and> UID live = uid)
      then (objects w)(name := None) else objects w)"
  by (auto simp: DeleteRemote_def send_def Let_def served_def log_line_def split: list.splits option.splits)

lemma DeleteRemote_ok:
  "fst (DeleteRemote kind name uid w) = None \<longleftrightarrow> served w"
  by (auto simp: DeleteRemote_def send_def Let_def served_def log_line_def split: list.splits option.splits)

lemma DeleteRemote_sent:
  "requests (snd (DeleteRemote kind name uid w)) = requests w @ [DeleteRequest name uid]"
  by (auto simp: DeleteRemote_def send_def Let_def log_line_def split: list.splits option.splits)

text \<open>The four ways a call of Handle that returns can go.\<close>

lemma Handle_cases:
  assumes "has_returned (fst (Handle fg nir name w))"
  obtains
    (skip) remote where "found_or_absent (localIngresses nir name)"
      "remoteIngresses nir name = Inr remote" "\<not> IsReflected fg remote"
  | (vanished) "localIngresses nir name = Inl (StatusError NotFound)"
      "remoteIngresses nir name = Inl (StatusError NotFound)"
  | (delete) remote where "localIngresses nir name = Inl (StatusError NotFound)"
      "remoteIngresses nir name = Inr remote" "IsReflected fg remote"
  | (enforce) local where "localIngresses nir name = Inr local"
      "found_or_absent (remoteIngresses nir name)"
      "\<forall>remote. remoteIngresses nir name = Inr remote \<longrightarrow> IsReflected fg remote"
proof -
  from assms Handle_returns_iff [of fg nir name w]
  have l: "found_or_absent (localIngresses nir name)"
    and r: "found_or_absent (remoteIngresses nir name)" by simp_all
  show thesis
  proof (cases "remoteIngresses nir name")
    case (Inr remote)
    show thesis
    proof (cases "IsReflected fg remote")
      case False
      with l Inr show thesis by (rule skip)
    next
      case True
      show thesis
      proof (cases "localIngresses nir name")
        case (Inl e)
        with l have "localIngresses nir name = Inl (StatusError NotFound)"
          by (simp add: found_or_absent_def)
        then show thesis using Inr True by (rule delete)
      next
        case (Inr local)
        then show thesis using r True \<open>remoteIngresses nir name = Inr remote\<close>
          by (intro enforce) auto
      qed
    qed
  next
    case (Inl e)
    with r have re: "remoteIngresses nir name = Inl (StatusError NotFound)"
      by (simp add: found_or_absent_def)
    show thesis
    proof (cases "localIngresses nir name")
      case (Inl e')
      with l have "localIngresses nir name = Inl (StatusError NotFound)"
        by (simp add: found_or_absent_def)
      then show thesis using re by (rule vanished)
    next
      case (Inr local)
      then show thesis using r re by (intro enforce) auto
    qed
  qed
qed

lemma Handle_apply:
  assumes "localIngresses nir name = Inr local"
    and "found_or_absent (remoteIngresses nir name)"
    and "\<forall>remote. remoteIngresses nir name = Inr remote \<longrightarrow> IsReflected fg remote"
  shows "Handle fg nir name w =
     (case Apply (RemoteIngress fg local (RemoteNamespace nir)) w of
        (Inl err, w') \<Rightarrow> (Returned (Some err), log_line (FailedToEnforce err) w')
      | (Inr _, w') \<Rightarrow> (Returned None, log_line SuccessfullyEnforced w'))"
  using assms
  by (auto simp: Handle_def Let_def read_defs split: sum.splits)

section \<open>The server side of an apply\<close>

lemma applied_carries: "carries (applied cfg fresh cur) cfg"
  by (auto simp: carries_def applied_def map_le_def map_add_def split: option.splits)

lemma Apply_served:
  "served w \<Longrightarrow> Apply cfg w =
     (Inr (applied cfg (nextUID w) (objects w (ac_Name cfg))),
      w\<lparr> requests := requests w @ [ApplyRequest cfg],
          faults := tl (faults w),
          objects := (objects w)(ac_Name cfg \<mapsto> applied cfg (nextUID w) (objects w (ac_Name cfg))),
          nextUID := (if objects w (ac_Name cfg) = None then Suc (nextUID w) else nextUID w) \<rparr>)"
  by (auto simp: Apply_def send_def served_def Let_def split: list.splits)

lemma Apply_failed:
  "\<not> served w \<Longrightarrow> \<exists>e fs. faults w = Some e # fs \<and> Apply cfg w =
     (Inl e, w\<lparr> requests := requests w @ [ApplyRequest cfg], faults := fs \<rparr>)"
  by (auto simp: Apply_def send_def served_def Let_def split: list.splits option.splits)

lemma foreign_labels_applied:
  "foreign_labels (Some (applied cfg u cur)) ++ ac_Labels cfg = foreign_labels cur ++ ac_Labels cfg"
  by (rule ext)
     (auto simp: foreign_labels_def applied_def map_add_def domIff split: option.splits)

lemma applied_again: "applied cfg u (Some (applied cfg u' cur)) = applied cfg u' cur"
proof -
  have "applied cfg u (Some (applied cfg u' cur))
      = (applied cfg u' cur)\<lparr>Labels := foreign_labels (Some (applied cfg u' cur)) ++ ac_Labels cfg\<rparr>"
    by (cases cur) (simp_all add: applied_def)
  also have "\<dots> = (applied cfg u' cur)\<lparr>Labels := foreign_labels cur ++ ac_Labels cfg\<rparr>"
    by (simp only: foreign_labels_applied)
  also have "\<dots> = applied cfg u' cur"
    by (cases cur) (simp_all add: applied_def foreign_labels_def)
  finally show ?thesis .
qed

lemma Apply_objects_again:
  assumes "Apply cfg w = (Inr obj, w1)"
  shows "objects (snd (Apply cfg w1)) = objects w1"
proof (cases "served w1")
  case False
  from Apply_failed [OF this, of cfg] show ?thesis by auto
next
  case True
  have sv: "served w" using assms Apply_failed [of w cfg] by (cases "served w") auto
  from assms Apply_served [OF sv, of cfg]
  have w1: "objects w1 = (objects w)(ac_Name cfg \<mapsto> applied cfg (nextUID w) (objects w (ac_Name cfg)))"
    by auto
  show ?thesis
    by (simp add: Apply_served [OF True] w1 applied_again)
qed

lemma Apply_stored:
  assumes "Apply cfg w = (Inr obj, w')"
  shows "objects w' = (objects w)(ac_Name cfg \<mapsto> obj) \<and> carries obj cfg"
proof -
  have sv: "served w" using assms Apply_failed [of w cfg] by (cases "served w") auto
  from assms Apply_served [OF sv, of cfg] show ?thesis
    by (auto simp: applied_carries)
qed

lemma carries_RemoteIngress_reflected:
  "carries obj (RemoteIngress fg local ns) \<Longrightarrow> IsReflected fg obj"
  by (auto simp: carries_def IsReflected_def RemoteIngress_def map_le_def)

lemma Handle_enforce_first:
  assumes "localIngresses nir name = Inr local"
    and "found_or_absent (remoteIngresses nir name)"
    and "\<forall>remote. remoteIngresses nir name = Inr remote \<longrightarrow> IsReflected fg remote"
    and "fst (Handle fg nir name w) = Returned None"
  shows "\<exists>obj w'. Apply (RemoteIngress fg local (RemoteNamespace nir)) w = (Inr obj, w')
           \<and> snd (Handle fg nir name w) = log_line SuccessfullyEnforced w'"
  using assms(4) unfolding Handle_apply [OF assms(1,2,3)]
  by (auto split: prod.splits sum.splits)

lemma Handle_enforce_sent:
  assumes "localIngresses nir name = Inr local"
    and "found_or_absent (remoteIngresses nir name)"
    and "\<forall>remote. remoteIngresses nir name = Inr remote \<longrightarrow> IsReflected fg remote"
  shows "sent w (snd (Handle fg nir name w)) = [ApplyRequest (RemoteIngress fg local (RemoteNamespace nir))]"
proof -
  let ?cfg = "RemoteIngress fg local (RemoteNamespace nir)"
  have "requests (snd (Handle fg nir name w)) = requests (snd (Apply ?cfg w))"
    unfolding Handle_apply [OF assms]
    by (auto simp: requests_log_line split: prod.splits sum.splits)
  then show ?thesis by (simp add: Apply_sent sent_append)
qed

lemma Handle_enforce_again:
  assumes a: "Apply (RemoteIngress fg local ns) w = (Inr obj, w')"
    and l: "localIngresses nir' name = Inr local" and ns: "RemoteNamespace nir' = ns"
    and r: "found_or_absent (remoteIngresses nir' name)"
    and o: "\<forall>remote. remoteIngresses nir' name = Inr remote \<longrightarrow> IsReflected fg remote"
  shows "objects (snd (Handle fg nir' name (log_line SuccessfullyEnforced w'))) = objects w'"
proof -
  let ?cfg = "RemoteIngress fg local ns"
  let ?w1 = "log_line SuccessfullyEnforced w'"
  have same: "Apply ?cfg ?w1 = (fst (Apply ?cfg w'), log_line SuccessfullyEnforced (snd (Apply ?cfg w')))"
    by (auto simp: Apply_def send_def Let_def log_line_def split: list.splits option.splits)
  have "objects (snd (Handle fg nir' name ?w1)) = objects (snd (Apply ?cfg ?w1))"
    unfolding Handle_apply [OF l r o] ns
    by (auto simp: objects_log_line split: prod.splits sum.splits)
  also have "\<dots> = objects (snd (Apply ?cfg w'))"
    by (simp add: same objects_log_line)
  also have "\<dots> = objects w'"
    by (rule Apply_objects_again [OF a])
  finally show ?thesis .
qed

lemma after_first_call_eq:
  "after_first_call =
     \<lparr> objects = [''web'' \<mapsto> \<lparr> Name = ''web'', Namespace = ''ns-remote'', UID = 100,
            Labels = [''app'' \<mapsto> ''shop'', ''managed-by'' \<mapsto> ''reflection''],
            Managed = {''managed-by'', ''app''},
            OriginUID = Some 7, Spec = ''rules-v2'' \<rparr>],
       nextUID = 101, faults = [],
       requests = [ApplyRequest (RemoteIngress scenario_forge local_web ''ns-remote'')],
       klog = [SuccessfullyEnforced] \<rparr>"
  by (simp add: after_first_call_def created_reflector_def scenario_defs handle_defs)


section \<open>Both objects absent\<close>

text \<open>
  C8. When the local lister and the remote lister both answer "not found", Handle returns
  nil and sends no request: the live remote objects are left as they were, and the outcome
  logged is "both vanished".
\<close>

theorem Handle_both_absent:
  assumes "localIngresses nir name = Inl (StatusError NotFound)"
    and "remoteIngresses nir name = Inl (StatusError NotFound)"
  shows "fst (Handle fg nir name w) = Returned None
       \<and> requests (snd (Handle fg nir name w)) = requests w
       \<and> objects (snd (Handle fg nir name w)) = objects w
       \<and> klog (snd (Handle fg nir name w)) = klog w @ [BothVanished]"
  using assms
  by (simp add: Handle_def read_defs log_line_def)

theorem Handle_both_absent_witness:
  "localIngresses (scenario_reflector (lister Map.empty) (lister Map.empty)) ''web''
     = Inl (StatusError NotFound)
   \<and> remoteIngresses (scenario_reflector (lister Map.empty) (lister Map.empty)) ''web''
     = Inl (StatusError NotFound)
   \<and> fst (Handle scenario_forge (scenario_reflector (lister Map.empty) (lister Map.empty)) ''web''
            (world_with Map.empty)) = Returned None
   \<and> requests (snd (Handle scenario_forge (scenario_reflector (lister Map.empty) (lister Map.empty))
            ''web'' (world_with Map.empty))) = []"
  using Handle_both_absent [of "scenario_reflector (lister Map.empty) (lister Map.empty)" "''web''"
      scenario_forge "world_with Map.empty"]
  by (simp add: scenario_defs)

section \<open>A remote object that is not ours\<close>

text \<open>
  C1. When the remote lister answers with an object that lacks the ownership marker,
  Handle sends no apply and no delete (no request at all) and the live remote objects are
  left as they were, whatever the local lister answers; and for every local state (object
  present, or not found) Handle returns nil with the outcome "skipping reflection".
\<close>

theorem Handle_unowned_remote:
  assumes "remoteIngresses nir name = Inr remote" and "\<not> IsReflected fg remote"
  shows "requests (snd (Handle fg nir name w)) = requests w
       \<and> objects (snd (Handle fg nir name w)) = objects w
       \<and> (found_or_absent (localIngresses nir name) \<longrightarrow>
            fst (Handle fg nir name w) = Returned None
          \<and> klog (snd (Handle fg nir name w)) = klog w @ [SkippingReflection])"
  using assms
  by (auto simp: Handle_def Let_def read_defs log_line_def split: sum.splits option.splits)

theorem Handle_unowned_remote_witness:
  "remoteIngresses (scenario_reflector (lister [''web'' \<mapsto> local_web]) (lister [''web'' \<mapsto> foreign_web]))
      ''web'' = Inr foreign_web
   \<and> \<not> IsReflected scenario_forge foreign_web
   \<and> found_or_absent (localIngresses
        (scenario_reflector (lister [''web'' \<mapsto> local_web]) (lister [''web'' \<mapsto> foreign_web])) ''web'')
   \<and> fst (Handle scenario_forge
        (scenario_reflector (lister [''web'' \<mapsto> local_web]) (lister [''web'' \<mapsto> foreign_web]))
        ''web'' (world_with [''web'' \<mapsto> foreign_web])) = Returned None
   \<and> objects (snd (Handle scenario_forge
        (scenario_reflector (lister [''web'' \<mapsto> local_web]) (lister [''web'' \<mapsto> foreign_web]))
        ''web'' (world_with [''web'' \<mapsto> foreign_web]))) ''web'' = Some foreign_web"
  using Handle_unowned_remote [of
      "scenario_reflector (lister [''web'' \<mapsto> local_web]) (lister [''web'' \<mapsto> foreign_web])"
      "''web''" foreign_web scenario_forge "world_with [''web'' \<mapsto> foreign_web]"]
  by (simp add: scenario_defs IsReflected_def found_or_absent_def)

section \<open>Read failures\<close>

text \<open>
  C4, as stated, fails: a read of the local lister that fails with an internal error does
  not make Handle return an error to the work queue; Handle does not return at all, it
  panics in \<^verbatim>\<open>utilruntime.Must\<close>.
\<close>

theorem Handle_read_failure_counterexample:
  "localIngresses (scenario_reflector (broken_lister (StatusError InternalError)) (lister Map.empty)) ''web''
     = Inl (StatusError InternalError)
   \<and> fst (Handle scenario_forge
        (scenario_reflector (broken_lister (StatusError InternalError)) (lister Map.empty))
        ''web'' (world_with Map.empty)) = Panicked (MustFailed (StatusError InternalError))
   \<and> \<not> has_returned (fst (Handle scenario_forge
        (scenario_reflector (broken_lister (StatusError InternalError)) (lister Map.empty))
        ''web'' (world_with Map.empty)))"
  by (simp add: Handle_def read_defs scenario_defs has_returned_def)

text \<open>
  C4, amended. Handle returns exactly when both listers answer with an object or with
  "not found": only "not found" is tolerated as a non-error signal. Any other failure of
  the local read, or of the remote read after a tolerated local read, makes Handle panic
  with that error in \<^verbatim>\<open>utilruntime.Must\<close>, before any request is sent and with the
  world unchanged; no error is returned for it.
\<close>

theorem Handle_read_failure:
  "(has_returned (fst (Handle fg nir name w)) \<longleftrightarrow>
      found_or_absent (localIngresses nir name) \<and> found_or_absent (remoteIngresses nir name))
   \<and> (\<forall>e. localIngresses nir name = Inl e \<and> e \<noteq> StatusError NotFound \<longrightarrow>
          Handle fg nir name w = (Panicked (MustFailed e), w))
   \<and> (\<forall>e. found_or_absent (localIngresses nir name) \<and>
          remoteIngresses nir name = Inl e \<and> e \<noteq> StatusError NotFound \<longrightarrow>
          Handle fg nir name w = (Panicked (MustFailed e), w))"
  apply (intro conjI allI impI)
    apply (rule Handle_returns_iff)
   apply (simp add: Handle_def Let_def read_defs)
  apply (auto simp: Handle_def Let_def read_defs split: sum.splits)
  done

theorem Handle_read_failure_witness:
  "localIngresses (scenario_reflector (broken_lister (StatusError InternalError)) (lister Map.empty)) ''web''
     = Inl (StatusError InternalError)
   \<and> StatusError InternalError \<noteq> StatusError NotFound
   \<and> Handle scenario_forge
        (scenario_reflector (broken_lister (StatusError InternalError)) (lister Map.empty))
        ''web'' (world_with Map.empty)
      = (Panicked (MustFailed (StatusError InternalError)), world_with Map.empty)
   \<and> found_or_absent (localIngresses
        (scenario_reflector (lister Map.empty) (broken_lister (StatusError ServerTimeout))) ''web'')
   \<and> remoteIngresses (scenario_reflector (lister Map.empty) (broken_lister (StatusError ServerTimeout))) ''web''
     = Inl (StatusError ServerTimeout)
   \<and> Handle scenario_forge
        (scenario_reflector (lister Map.empty) (broken_lister (StatusError ServerTimeout)))
        ''web'' (world_with Map.empty)
      = (Panicked (MustFailed (StatusError ServerTimeout)), world_with Map.empty)"
  using Handle_read_failure [of scenario_forge
      "scenario_reflector (broken_lister (StatusError InternalError)) (lister Map.empty)"
      "''web''" "world_with Map.empty"]
    Handle_read_failure [of scenario_forge
      "scenario_reflector (lister Map.empty) (broken_lister (StatusError ServerTimeout))"
      "''web''" "world_with Map.empty"]
  by (simp add: scenario_defs found_or_absent_def)

section \<open>Deleting the remote object of a vanished local object\<close>

text \<open>
  C3. When the local lister answers "not found" and the remote lister answers with an
  object that carries the ownership marker, Handle sends exactly one request: the delete
  of that name with the UID recorded by the remote lister as precondition. When the call
  is served it returns nil; the live object is removed when its UID is the recorded one,
  and when the live object has another UID the delete changes nothing.
\<close>

theorem Handle_local_absent_deletes:
  assumes "localIngresses nir name = Inl (StatusError NotFound)"
    and "remoteIngresses nir name = Inr remote" and "IsReflected fg remote"
  shows "sent w (snd (Handle fg nir name w)) = [DeleteRequest name (UID remote)]
       \<and> (served w \<longrightarrow> fst (Handle fg nir name w) = Returned None)
       \<and> (\<forall>live. served w \<and> objects w name = Some live \<and> UID live = UID remote \<longrightarrow>
            objects (snd (Handle fg nir name w)) = (objects w)(name := None))
       \<and> (\<forall>live. objects w name = Some live \<and> UID live \<noteq> UID remote \<longrightarrow>
            objects (snd (Handle fg nir name w)) = objects w)"
  using assms
  by (auto simp: Handle_def Let_def read_defs DeleteRemote_def send_def sent_def served_def log_line_def
      split: list.splits option.splits)

theorem Handle_local_absent_deletes_witness:
  "localIngresses (scenario_reflector (lister Map.empty) (lister [''web'' \<mapsto> owned_web])) ''web''
     = Inl (StatusError NotFound)
   \<and> remoteIngresses (scenario_reflector (lister Map.empty) (lister [''web'' \<mapsto> owned_web])) ''web''
     = Inr owned_web
   \<and> IsReflected scenario_forge owned_web
   \<and> served (world_with [''web'' \<mapsto> owned_web])
   \<and> UID owned_web = 41
   \<and> objects (snd (Handle scenario_forge
        (scenario_reflector (lister Map.empty) (lister [''web'' \<mapsto> owned_web])) ''web''
        (world_with [''web'' \<mapsto> owned_web]))) = Map.empty
   \<and> served (world_with [''web'' \<mapsto> owned_web\<lparr>UID := 42\<rparr>])
   \<and> UID (owned_web\<lparr>UID := 42\<rparr>) \<noteq> UID owned_web
   \<and> fst (Handle scenario_forge
        (scenario_reflector (lister Map.empty) (lister [''web'' \<mapsto> owned_web])) ''web''
        (world_with [''web'' \<mapsto> owned_web\<lparr>UID := 42\<rparr>])) = Returned None
   \<and> objects (snd (Handle scenario_forge
        (scenario_reflector (lister Map.empty) (lister [''web'' \<mapsto> owned_web])) ''web''
        (world_with [''web'' \<mapsto> owned_web\<lparr>UID := 42\<rparr>]))) = [''web'' \<mapsto> owned_web\<lparr>UID := 42\<rparr>]
   \<and> sent (world_with [''web'' \<mapsto> owned_web\<lparr>UID := 42\<rparr>]) (snd (Handle scenario_forge
        (scenario_reflector (lister Map.empty) (lister [''web'' \<mapsto> owned_web])) ''web''
        (world_with [''web'' \<mapsto> owned_web\<lparr>UID := 42\<rparr>]))) = [DeleteRequest ''web'' 41]"
  using Handle_local_absent_deletes [of
      "scenario_reflector (lister Map.empty) (lister [''web'' \<mapsto> owned_web])" "''web''" owned_web
      scenario_forge "world_with [''web'' \<mapsto> owned_web]"]
    Handle_local_absent_deletes [of
      "scenario_reflector (lister Map.empty) (lister [''web'' \<mapsto> owned_web])" "''web''" owned_web
      scenario_forge "world_with [''web'' \<mapsto> owned_web\<lparr>UID := 42\<rparr>]"]
  by (simp add: scenario_defs IsReflected_def served_def)

section \<open>Enforcing the translation\<close>




section \<open>Running Handle twice\<close>

text \<open>
  C2, as stated, fails: in scenario A the first call creates the remote object, so that
  the desired state equals the current remote state, and the second call (its remote
  lister refreshed) still sends the apply request. And when the remote API fails the
  first call, that call leaves nothing behind and the second call creates the object: the
  two calls have to be calls that return without error.
\<close>

theorem Handle_twice_counterexample:
  "fst (Handle scenario_forge created_reflector ''web'' (world_with Map.empty)) = Returned None
   \<and> sent after_first_call (snd (Handle scenario_forge refreshed_reflector ''web'' after_first_call))
       = [ApplyRequest (RemoteIngress scenario_forge local_web ''ns-remote'')]
   \<and> fst (Handle scenario_forge created_reflector ''web'' unavailable_world)
       = Returned (Some (StatusError ServerTimeout))
   \<and> objects (snd (Handle scenario_forge created_reflector ''web'' unavailable_world)) ''web'' = None
   \<and> objects (snd (Handle scenario_forge created_reflector ''web''
         (snd (Handle scenario_forge created_reflector ''web'' unavailable_world)))) ''web''
       \<noteq> None"
  by (simp add: after_first_call_eq refreshed_reflector_def created_reflector_def scenario_defs
      handle_defs sent_def unavailable_world_def)


text \<open>
  C2, amended. Let a first call of Handle return nil, and let a second call see the same
  local lister and either the same remote lister or, when the remote lister showed the
  live objects, a remote lister refreshed from the live objects. Then the second call
  leaves the live remote objects as the first call left them. It is not silent: whenever
  the first call sent an apply request, the second call sends the same apply request
  again, and the server-side apply changes nothing.
\<close>

theorem Handle_twice:
  assumes first: "fst (Handle fg nir name w) = Returned None"
    and view: "nir' = nir \<or>
       (remoteIngresses nir = lister (objects w) \<and>
        nir' = nir\<lparr>remoteIngresses := lister (objects (snd (Handle fg nir name w)))\<rparr>)"
  shows "objects (snd (Handle fg nir' name (snd (Handle fg nir name w))))
           = objects (snd (Handle fg nir name w))
       \<and> (\<forall>m. sent w (snd (Handle fg nir name w)) = [ApplyRequest m] \<longrightarrow>
            sent (snd (Handle fg nir name w)) (snd (Handle fg nir' name (snd (Handle fg nir name w))))
              = [ApplyRequest m])"
proof -
  let ?w1 = "snd (Handle fg nir name w)"
  have loc: "localIngresses nir' = localIngresses nir" and ns: "RemoteNamespace nir' = RemoteNamespace nir"
    using view by auto
  have ret: "has_returned (fst (Handle fg nir name w))"
    using first by (simp add: has_returned_def)
  from ret show ?thesis
  proof (cases rule: Handle_cases)
    case (skip remote)
    have w1: "?w1 = log_line SkippingReflection w"
      using Handle_skip [OF skip] by simp
    have "remoteIngresses nir' = remoteIngresses nir"
      using view by (auto simp: w1 objects_log_line)
    then have "Handle fg nir' name ?w1 = (Returned None, log_line SkippingReflection ?w1)"
      using skip loc by (intro Handle_skip) auto
    then show ?thesis by (simp add: objects_log_line w1 sent_def requests_log_line)
  next
    case vanished
    have w1: "?w1 = log_line BothVanished w"
      using Handle_vanished [OF vanished] by simp
    have "remoteIngresses nir' = remoteIngresses nir"
      using view by (auto simp: w1 objects_log_line)
    then have "Handle fg nir' name ?w1 = (Returned None, log_line BothVanished ?w1)"
      using vanished loc by (intro Handle_vanished) auto
    then show ?thesis by (simp add: objects_log_line w1 sent_def requests_log_line)
  next
    case (delete remote)
    let ?d = "DeleteRemote IngressReflectorName name (UID remote) w"
    have H: "Handle fg nir name w = (Returned (fst ?d), snd ?d)"
      using Handle_delete [OF delete] by (simp split: prod.splits)
    then have sv: "served w" using first by (simp add: DeleteRemote_ok)
    have w1: "?w1 = snd ?d" using H by simp
    have nosent: "\<And>m. sent w ?w1 \<noteq> [ApplyRequest m]"
      by (simp add: w1 sent_append [OF DeleteRemote_sent])
    have gone: "\<not> (\<exists>live. objects ?w1 name = Some live \<and> UID live = UID remote)"
      by (auto simp: w1 DeleteRemote_objects sv)
    from view show ?thesis
    proof
      assume "nir' = nir"
      then have "Handle fg nir' name ?w1 =
          (case DeleteRemote IngressReflectorName name (UID remote) ?w1 of (err, w') \<Rightarrow> (Returned err, w'))"
        using Handle_delete [OF delete] by simp
      then have "objects (snd (Handle fg nir' name ?w1)) =
          objects (snd (DeleteRemote IngressReflectorName name (UID remote) ?w1))"
        by (simp split: prod.splits)
      also have "\<dots> = objects ?w1"
        using gone by (auto simp: DeleteRemote_objects)
      finally show ?thesis using nosent by simp
    next
      assume b: "remoteIngresses nir = lister (objects w) \<and>
        nir' = nir\<lparr>remoteIngresses := lister (objects ?w1)\<rparr>"
      with delete(2) have live: "objects w name = Some remote"
        by (auto simp: lister_def split: option.splits)
      have "objects ?w1 name = None"
        using live sv by (simp add: w1 DeleteRemote_objects)
      then have "remoteIngresses nir' name = Inl (StatusError NotFound)"
        using b by (simp add: lister_def)
      moreover have "localIngresses nir' name = Inl (StatusError NotFound)"
        using delete(1) loc by simp
      ultimately have "Handle fg nir' name ?w1 = (Returned None, log_line BothVanished ?w1)"
        by (intro Handle_vanished)
      then show ?thesis using nosent by (simp add: objects_log_line)
    qed
  next
    case (enforce local)
    let ?cfg = "RemoteIngress fg local (RemoteNamespace nir)"
    from Handle_enforce_first [OF enforce first]
    obtain obj w' where a: "Apply ?cfg w = (Inr obj, w')"
      and w1: "?w1 = log_line SuccessfullyEnforced w'" by blast
    have l': "localIngresses nir' name = Inr local" using enforce(1) loc by simp
    have r': "found_or_absent (remoteIngresses nir' name)
        \<and> (\<forall>remote. remoteIngresses nir' name = Inr remote \<longrightarrow> IsReflected fg remote)"
      using view
    proof
      assume "nir' = nir"
      then show ?thesis using enforce by simp
    next
      assume b: "remoteIngresses nir = lister (objects w) \<and>
        nir' = nir\<lparr>remoteIngresses := lister (objects ?w1)\<rparr>"
      from Apply_stored [OF a]
      have st: "objects w' = (objects w)(ac_Name ?cfg \<mapsto> obj)" and c: "carries obj ?cfg" by simp_all
      have refl: "IsReflected fg obj" by (rule carries_RemoteIngress_reflected [OF c])
      have v': "remoteIngresses nir' name = lister ((objects w)(ac_Name ?cfg \<mapsto> obj)) name"
        using b by (simp add: w1 objects_log_line st)
      show ?thesis
      proof (cases "ac_Name ?cfg = name")
        case True
        then show ?thesis using refl by (simp add: v' lister_def found_or_absent_def)
      next
        case False
        then have "remoteIngresses nir' name = lister (objects w) name"
          unfolding v' by (simp add: lister_def)
        also have "\<dots> = remoteIngresses nir name"
          using b by simp
        finally show ?thesis using enforce by simp
      qed
    qed
    have obj: "objects (snd (Handle fg nir' name ?w1)) = objects ?w1"
      unfolding w1
      using Handle_enforce_again [OF a l' ns] r' by (simp add: objects_log_line)
    have s1: "sent w ?w1 = [ApplyRequest ?cfg]"
      by (rule Handle_enforce_sent [OF enforce])
    have s2: "sent ?w1 (snd (Handle fg nir' name ?w1)) = [ApplyRequest ?cfg]"
      using Handle_enforce_sent [OF l', of fg ?w1] r' ns by simp
    show ?thesis using obj s1 s2 by simp
  qed
qed

theorem Handle_twice_witness:
  "fst (Handle scenario_forge created_reflector ''web'' (world_with Map.empty)) = Returned None
   \<and> remoteIngresses created_reflector = lister (objects (world_with Map.empty))
   \<and> objects (snd (Handle scenario_forge refreshed_reflector ''web'' after_first_call))
       = objects after_first_call
   \<and> sent (world_with Map.empty) after_first_call
       = [ApplyRequest (RemoteIngress scenario_forge local_web ''ns-remote'')]
   \<and> sent after_first_call (snd (Handle scenario_forge refreshed_reflector ''web'' after_first_call))
       = [ApplyRequest (RemoteIngress scenario_forge local_web ''ns-remote'')]"
proof -
  have first: "fst (Handle scenario_forge created_reflector ''web'' (world_with Map.empty)) = Returned None"
    by (simp add: created_reflector_def scenario_defs handle_defs)
  have view: "remoteIngresses created_reflector = lister (objects (world_with Map.empty))"
    by (simp add: created_reflector_def scenario_reflector_def world_with_def)
  have s: "sent (world_with Map.empty) after_first_call
       = [ApplyRequest (RemoteIngress scenario_forge local_web ''ns-remote'')]"
    by (simp add: after_first_call_eq sent_def world_with_def)
  from Handle_twice [of scenario_forge created_reflector "''web''" "world_with Map.empty"
      refreshed_reflector, OF first] view s
  show ?thesis
    using first by (simp add: refreshed_reflector_def after_first_call_def)
qed

section \<open>Keys without a resolved namespace\<close>

lemma rf_Fallback_Start: "rf_Fallback (StartNamespace opts r) = rf_Fallback r"
  by (simp add: StartNamespace_def)

lemma rf_Fallback_Stop: "rf_Fallback (StopNamespace ns r) = rf_Fallback r"
  by (simp add: StopNamespace_def)

text \<open>
  C6. The Ingress reflector is constructed without fallback, and starting namespace
  pairs does not change that. For a kind without fallback, handling a key whose
  namespace has no namespaced reflector yields a transient failure, which the work queue
  retries with backoff while attempts remain, and touches nothing; for a fallback-tolerant
  kind the same key yields the outcome deferred with no error, which the work queue
  marks done.
\<close>

theorem unresolved_namespace_policy:
  "rf_Fallback (NewIngressReflector workers) = WithoutFallback
   \<and> rf_Fallback (fold StartNamespace optss (NewIngressReflector workers)) = WithoutFallback
   \<and> (rf_Namespaced r (fst key) = None \<and> rf_Fallback r = WithoutFallback \<longrightarrow>
        Reflector_handle fg r key w = (Inr (Some (Transient NamespaceNotResolved), Failed), w)
      \<and> (attempts < maxRetries \<longrightarrow>
           queue_decision maxRetries attempts (Some (Transient NamespaceNotResolved)) = RequeueWithBackoff))
   \<and> (rf_Namespaced r (fst key) = None \<and> rf_Fallback r = WithFallback \<longrightarrow>
        Reflector_handle fg r key w = (Inr (None, Deferred), w)
      \<and> queue_decision maxRetries attempts None = MarkDone)"
proof -
  have "rf_Fallback (fold StartNamespace optss r0) = rf_Fallback r0" for r0
    by (induction optss arbitrary: r0) (simp_all add: rf_Fallback_Start)
  then show ?thesis
    by (simp add: NewIngressReflector_def NewReflector_def Reflector_handle_def queue_decision_def)
qed

theorem unresolved_namespace_policy_witness:
  "rf_Namespaced (StartNamespace scenario_opts (NewIngressReflector 4)) (fst (''ns-other'', ''web'')) = None
   \<and> rf_Fallback (StartNamespace scenario_opts (NewIngressReflector 4)) = WithoutFallback
   \<and> Reflector_handle scenario_forge (StartNamespace scenario_opts (NewIngressReflector 4))
        (''ns-other'', ''web'') (world_with Map.empty)
      = (Inr (Some (Transient NamespaceNotResolved), Failed), world_with Map.empty)
   \<and> (0::nat) < 5
   \<and> queue_decision 5 0 (Some (Transient NamespaceNotResolved)) = RequeueWithBackoff
   \<and> rf_Namespaced (NewReflector ''ConfigMap'' NewNamespacedIngressReflector WithFallback 4)
        (fst (''ns-other'', ''web'')) = None
   \<and> rf_Fallback (NewReflector ''ConfigMap'' NewNamespacedIngressReflector WithFallback 4) = WithFallback
   \<and> Reflector_handle scenario_forge (NewReflector ''ConfigMap'' NewNamespacedIngressReflector WithFallback 4)
        (''ns-other'', ''web'') (world_with Map.empty)
      = (Inr (None, Deferred), world_with Map.empty)"
  using unresolved_namespace_policy [of 4 "[scenario_opts]"
      "StartNamespace scenario_opts (NewIngressReflector 4)" "(''ns-other'', ''web'')"
      scenario_forge "world_with Map.empty" 0 5]
    unresolved_namespace_policy [of 4 "[]"
      "NewReflector ''ConfigMap'' NewNamespacedIngressReflector WithFallback 4" "(''ns-other'', ''web'')"
      scenario_forge "world_with Map.empty" 0 5]
  by (simp add: StartNamespace_def NewIngressReflector_def NewReflector_def scenario_opts_def)

section \<open>Enforcing a ForeignCluster from the add command\<close>

lemma enforce_mutation_fields:
  "fcr_Name (enforce_mutation t fc) = fcr_Name fc"
  "fcr_ClusterID (enforce_mutation t fc) = ClusterID t"
  "fcr_ClusterName (enforce_mutation t fc) =
     (if fcr_ClusterName fc = '''' then ClusterName t else fcr_ClusterName fc)"
  "fcr_ForeignAuthURL (enforce_mutation t fc) = ClusterAuthURL t"
  "fcr_OutgoingPeeringEnabled (enforce_mutation t fc) = PeeringEnabledYes"
  by (simp_all add: enforce_mutation_def Let_def)

lemma client_call_stored: "stored (snd (client_call c s)) = stored s"
  by (simp add: client_call_def Let_def split: list.splits)


lemma client_Get_Inr:
  "client_Get key s = (Inr obj, s') \<Longrightarrow> stored s' = stored s \<and> stored s key = Some obj"
  by (auto simp: client_Get_def client_call_def Let_def split: list.splits option.splits)

lemma client_Get_Inl:
  "client_Get key s = (Inl e, s') \<Longrightarrow> stored s' = stored s"
  by (auto simp: client_Get_def client_call_def Let_def split: list.splits option.splits)

lemma client_Create_stored:
  "client_Create obj s = (res, s') \<Longrightarrow>
     (res = None \<longrightarrow> stored s (fcr_Name obj) = None \<and> stored s' = (stored s)(fcr_Name obj \<mapsto> obj))
   \<and> (res \<noteq> None \<longrightarrow> stored s' = stored s)"
  by (auto simp: client_Create_def client_call_def Let_def split: list.splits option.splits if_splits)

lemma client_Update_stored:
  "client_Update obj s = (res, s') \<Longrightarrow>
     (res = None \<longrightarrow> stored s (fcr_Name obj) \<noteq> None \<and> stored s' = (stored s)(fcr_Name obj \<mapsto> obj))
   \<and> (res \<noteq> None \<longrightarrow> stored s' = stored s)"
  by (auto simp: client_Update_def client_call_def Let_def split: list.splits option.splits)

text \<open>What CreateOrUpdate leaves in the store.\<close>

lemma CreateOrUpdate_stored:
  assumes "CreateOrUpdate obj f s = (res, s')" and "\<And>x. fcr_Name (f x) = fcr_Name x"
  shows "(res \<noteq> None \<longrightarrow> stored s' = stored s)
       \<and> (res = None \<longrightarrow>
            stored s' = (stored s)(fcr_Name obj \<mapsto>
               f (case stored s (fcr_Name obj) of Some existing \<Rightarrow> existing | None \<Rightarrow> obj)))"
proof (cases "client_Get (fcr_Name obj) s")
  case (Pair r s1)
  show ?thesis
  proof (cases r)
    case (Inl err)
    with Pair have s1: "stored s1 = stored s" by (auto dest: client_Get_Inl)
    show ?thesis
    proof (cases "IsNotFound (Some err)")
      case False
      with assms(1) Pair Inl s1 show ?thesis by (auto simp: CreateOrUpdate_def Let_def)
    next
      case True
      with assms Pair Inl have c: "client_Create (f obj) s1 = (res, s')"
        by (auto simp: CreateOrUpdate_def Let_def mutate_def)
      from client_Create_stored [OF c] s1 assms(2) show ?thesis by auto
    qed
  next
    case (Inr existing)
    with Pair have s1: "stored s1 = stored s" and ex: "stored s (fcr_Name obj) = Some existing"
      by (auto dest: client_Get_Inr)
    show ?thesis
    proof (cases "fcr_Name existing = fcr_Name obj")
      case False
      with assms Pair Inr s1 show ?thesis
        by (auto simp: CreateOrUpdate_def Let_def mutate_def)
    next
      case nm: True
      show ?thesis
      proof (cases "existing = f existing")
        case True
        with assms Pair Inr nm have "res = None" "s' = s1"
          by (auto simp: CreateOrUpdate_def Let_def mutate_def)
        with s1 ex True show ?thesis by (auto simp: fun_upd_idem)
      next
        case False
        with assms Pair Inr nm have u: "client_Update (f existing) s1 = (res, s')"
          by (auto simp: CreateOrUpdate_def Let_def mutate_def)
        from client_Update_stored [OF u] s1 ex nm assms(2) show ?thesis by auto
      qed
    qed
  qed
qed

lemma enforce_mutation_Name: "fcr_Name (enforce_mutation t x) = fcr_Name x"
  by (simp add: enforce_mutation_fields)

lemma enforceForeignCluster_stored:
  assumes "enforceForeignCluster lookup t s = (res, s')"
  shows "(res \<noteq> None \<longrightarrow> stored s' = stored s)
       \<and> (res = None \<longrightarrow> (\<exists>prior. stored s' = (stored s)(enforced_name lookup t \<mapsto> enforce_mutation t prior)
              \<and> fcr_ClusterName prior = prior_ClusterName lookup t s
              \<and> (\<forall>existing. stored s (enforced_name lookup t) = Some existing \<longrightarrow> prior = existing)))"
proof (cases lookup)
  case (Inr fc)
  with assms have c: "CreateOrUpdate fc (enforce_mutation t) s = (res, s')"
    by (simp add: enforceForeignCluster_def)
  from CreateOrUpdate_stored [OF c enforce_mutation_Name] Inr show ?thesis
    by (auto simp: enforced_name_def prior_ClusterName_def split: option.splits)
next
  case (Inl err)
  show ?thesis
  proof (cases "IsNotFound (Some err)")
    case False
    with assms Inl show ?thesis by (auto simp: enforceForeignCluster_def)
  next
    case True
    let ?new = "\<lparr> fcr_Name = ClusterName t, fcr_Labels = [(ClusterIDLabel, ClusterID t)],
                   fcr_ClusterID = '''', fcr_ClusterName = '''', fcr_ForeignAuthURL = '''',
                   fcr_OutgoingPeeringEnabled = PeeringEnabledEmpty,
                   fcr_IncomingPeeringEnabled = PeeringEnabledEmpty,
                   fcr_InsecureSkipTLSVerify = None \<rparr>"
    from assms Inl True have c: "CreateOrUpdate ?new (enforce_mutation t) s = (res, s')"
      by (simp add: enforceForeignCluster_def)
    from CreateOrUpdate_stored [OF c enforce_mutation_Name] Inl show ?thesis
      by (auto simp: enforced_name_def prior_ClusterName_def split: option.splits)
  qed
qed

text \<open>
  C10. enforceForeignCluster never overwrites a non-empty cluster name of an existing
  ForeignCluster: every stored ForeignCluster with a non-empty cluster name is still
  stored under its name with that cluster name afterwards. When it returns nil, the
  ForeignCluster it enforced has the prior cluster name when that was non-empty and the
  cluster name of the arguments when it was empty, and its authentication URL and its
  outgoing peering flag are set from the arguments whatever they were. When it returns an
  error, nothing stored has changed.
\<close>

theorem enforceForeignCluster_keeps_ClusterName:
  "(\<forall>n existing. stored s n = Some existing \<and> fcr_ClusterName existing \<noteq> '''' \<longrightarrow>
       (\<exists>fc. stored (snd (enforceForeignCluster lookup t s)) n = Some fc
            \<and> fcr_ClusterName fc = fcr_ClusterName existing))
   \<and> (fst (enforceForeignCluster lookup t s) = None \<longrightarrow>
       (\<exists>fc. stored (snd (enforceForeignCluster lookup t s)) (enforced_name lookup t) = Some fc
            \<and> fcr_ClusterName fc =
                (if prior_ClusterName lookup t s = '''' then ClusterName t
                 else prior_ClusterName lookup t s)
            \<and> fcr_ForeignAuthURL fc = ClusterAuthURL t
            \<and> fcr_OutgoingPeeringEnabled fc = PeeringEnabledYes))
   \<and> (fst (enforceForeignCluster lookup t s) \<noteq> None \<longrightarrow>
       stored (snd (enforceForeignCluster lookup t s)) = stored s)"
proof -
  obtain res s' where e: "enforceForeignCluster lookup t s = (res, s')"
    by (cases "enforceForeignCluster lookup t s")
  note st = enforceForeignCluster_stored [OF e]
  show ?thesis
  proof (cases res)
    case (Some err)
    with st e show ?thesis by simp
  next
    case None
    with st obtain prior where
      s': "stored s' = (stored s)(enforced_name lookup t \<mapsto> enforce_mutation t prior)"
      and pn: "fcr_ClusterName prior = prior_ClusterName lookup t s"
      and pe: "\<forall>existing. stored s (enforced_name lookup t) = Some existing \<longrightarrow> prior = existing"
      by auto
    have frame: "\<exists>fc. stored s' n = Some fc \<and> fcr_ClusterName fc = fcr_ClusterName existing"
      if "stored s n = Some existing" "fcr_ClusterName existing \<noteq> ''''" for n existing
    proof (cases "n = enforced_name lookup t")
      case True
      with that pe have "prior = existing" by simp
      with that True show ?thesis by (simp add: s' enforce_mutation_fields)
    next
      case False
      with that show ?thesis by (simp add: s')
    qed
    have "fcr_ClusterName (enforce_mutation t prior) =
        (if prior_ClusterName lookup t s = '''' then ClusterName t else prior_ClusterName lookup t s)"
      by (simp add: enforce_mutation_fields pn)
    then show ?thesis using frame e None
      by (simp add: s' enforce_mutation_fields)
  qed
qed

theorem enforceForeignCluster_keeps_ClusterName_witness:
  "stored (apiserver_with [''cluster-b'' \<mapsto> known_cluster]) ''cluster-b'' = Some known_cluster
   \<and> fcr_ClusterName known_cluster \<noteq> ''''
   \<and> fst (enforceForeignCluster (Inr known_cluster) add_args
        (apiserver_with [''cluster-b'' \<mapsto> known_cluster])) = None
   \<and> stored (snd (enforceForeignCluster (Inr known_cluster) add_args
        (apiserver_with [''cluster-b'' \<mapsto> known_cluster]))) ''cluster-b''
      = Some (known_cluster\<lparr> fcr_ForeignAuthURL := ''https://b:443'',
                fcr_OutgoingPeeringEnabled := PeeringEnabledYes \<rparr>)
   \<and> fst (enforceForeignCluster (Inl (StatusError NotFound)) add_args (apiserver_with Map.empty)) = None
   \<and> prior_ClusterName (Inl (StatusError NotFound)) add_args (apiserver_with Map.empty) = ''''
   \<and> (\<exists>fc. stored (snd (enforceForeignCluster (Inl (StatusError NotFound)) add_args
              (apiserver_with Map.empty))) ''remote-b'' = Some fc
          \<and> fcr_ClusterName fc = ''remote-b'' \<and> fcr_ForeignAuthURL fc = ''https://b:443''
          \<and> fcr_OutgoingPeeringEnabled fc = PeeringEnabledYes)
   \<and> fst (enforceForeignCluster (Inl (StatusError Forbidden)) add_args
        (apiserver_with [''cluster-b'' \<mapsto> known_cluster])) \<noteq> None
   \<and> stored (snd (enforceForeignCluster (Inl (StatusError Forbidden)) add_args
        (apiserver_with [''cluster-b'' \<mapsto> known_cluster]))) = [''cluster-b'' \<mapsto> known_cluster]"
proof -
  have a: "enforceForeignCluster (Inr known_cluster) add_args (apiserver_with [''cluster-b'' \<mapsto> known_cluster])
      = (None, \<lparr> stored = [''cluster-b'' \<mapsto> known_cluster\<lparr> fcr_ForeignAuthURL := ''https://b:443'',
                    fcr_OutgoingPeeringEnabled := PeeringEnabledYes \<rparr>],
                failures = [],
                client_calls = [GetCall ''cluster-b'',
                  UpdateCall (known_cluster\<lparr> fcr_ForeignAuthURL := ''https://b:443'',
                    fcr_OutgoingPeeringEnabled := PeeringEnabledYes \<rparr>)] \<rparr>)"
    by (simp add: enforceForeignCluster_def CreateOrUpdate_def client_Get_def client_Update_def
        client_call_def mutate_def enforce_mutation_def Let_def known_cluster_def add_args_def
        apiserver_with_def)
  have b: "fst (enforceForeignCluster (Inl (StatusError NotFound)) add_args (apiserver_with Map.empty)) = None"
    by (simp add: enforceForeignCluster_def CreateOrUpdate_def client_Get_def client_Create_def
        client_call_def mutate_def enforce_mutation_def Let_def add_args_def IsNotFound_def
        apiserver_with_def)
  have c: "fst (enforceForeignCluster (Inl (StatusError Forbidden)) add_args
        (apiserver_with [''cluster-b'' \<mapsto> known_cluster])) \<noteq> None"
    by (simp add: enforceForeignCluster_def IsNotFound_def)
  have p: "prior_ClusterName (Inl (StatusError NotFound)) add_args (apiserver_with Map.empty) = ''''"
    by (simp add: prior_ClusterName_def enforced_name_def apiserver_with_def)
  have n: "enforced_name (Inl (StatusError NotFound)) add_args = ''remote-b''"
    by (simp add: enforced_name_def add_args_def)
  from enforceForeignCluster_keeps_ClusterName [of "apiserver_with Map.empty"
      "Inl (StatusError NotFound)" add_args] b p n
  have "\<exists>fc. stored (snd (enforceForeignCluster (Inl (StatusError NotFound)) add_args
              (apiserver_with Map.empty))) ''remote-b'' = Some fc
          \<and> fcr_ClusterName fc = ''remote-b'' \<and> fcr_ForeignAuthURL fc = ''https://b:443''
          \<and> fcr_OutgoingPeeringEnabled fc = PeeringEnabledYes"
    by (simp add: add_args_def)
  moreover from enforceForeignCluster_keeps_ClusterName [of
      "apiserver_with [''cluster-b'' \<mapsto> known_cluster]" "Inl (StatusError Forbidden)" add_args] c
  have "stored (snd (enforceForeignCluster (Inl (StatusError Forbidden)) add_args
        (apiserver_with [''cluster-b'' \<mapsto> known_cluster]))) = [''cluster-b'' \<mapsto> known_cluster]"
    by (simp add: apiserver_with_def)
  ultimately show ?thesis using a b c p
    by (simp add: apiserver_with_def known_cluster_def)
qed

section \<open>Discovery never acts on the local cluster\<close>

lemma avoids_refl: "avoids P c c"
  by (simp add: avoids_def)

lemma avoids_trans: "avoids P c c1 \<Longrightarrow> avoids P c1 c2 \<Longrightarrow> avoids P c c2"
  by (auto simp: avoids_def)

lemma avoids_made: "avoids P c c' \<Longrightarrow> \<forall>a \<in> set (made c c'). \<not> P a"
  by (auto simp: avoids_def made_def)

lemma api_call_calls: "calls (snd (api_call a c)) = calls c @ [a]"
  by (simp add: api_call_def Let_def split: list.splits)

lemma api_call_avoids: "\<not> P a \<Longrightarrow> avoids P c (snd (api_call a c))"
  by (simp add: avoids_def api_call_calls)

lemma List_fc_avoids:
  "\<not> P (ListCall key val) \<Longrightarrow> avoids P c (snd (List_fc key val c))"
  using api_call_avoids [of P "ListCall key val" c]
  by (auto simp: List_fc_def avoids_def split: prod.splits option.splits fault.splits)

lemma List_fc_items:
  "List_fc key val c = (Inr (ForeignClusterListObj items), c') \<Longrightarrow>
     \<forall>fc \<in> set items. fc_Labels fc key = Some val"
  by (auto simp: List_fc_def answer_def split: prod.splits option.splits fault.splits)

lemma Create_fc_avoids:
  "\<not> P (CreateFC fc) \<Longrightarrow> avoids P c (snd (Create_fc fc c))"
  using api_call_avoids [of P "CreateFC fc" c]
  by (auto simp: Create_fc_def avoids_def split: prod.splits option.splits fault.splits)

lemma Create_fc_answer:
  "Create_fc fc c = (Inr (ForeignClusterObj fc'), c') \<Longrightarrow> fc' = fc"
  by (auto simp: Create_fc_def answer_def split: prod.splits option.splits fault.splits if_splits)

lemma Update_fc_avoids:
  "\<not> P (UpdateFC name fc) \<Longrightarrow> avoids P c (snd (Update_fc name fc c))"
  using api_call_avoids [of P "UpdateFC name fc" c]
  by (auto simp: Update_fc_def avoids_def split: prod.splits option.splits fault.splits)

lemma Update_fc_answer:
  "Update_fc name fc c = (Inr (ForeignClusterObj fc'), c') \<Longrightarrow> fc' = fc"
  by (auto simp: Update_fc_def answer_def split: prod.splits option.splits fault.splits if_splits)

lemma Delete_fc_avoids:
  "\<not> P (DeleteFC name) \<Longrightarrow> avoids P c (snd (Delete_fc name c))"
  using api_call_avoids [of P "DeleteFC name" c]
  by (auto simp: Delete_fc_def avoids_def split: prod.splits option.splits fault.splits)

lemma Delete_secret_avoids:
  "\<not> P (DeleteSecret ns name) \<Longrightarrow> avoids P c (snd (Delete_secret ns name c))"
  using api_call_avoids [of P "DeleteSecret ns name" c]
  by (auto simp: Delete_secret_def avoids_def split: prod.splits option.splits fault.splits)

lemma Delete_advertisement_avoids:
  "\<not> P (DeleteAdvertisement name) \<Longrightarrow> avoids P c (snd (Delete_advertisement name c))"
  using api_call_avoids [of P "DeleteAdvertisement name" c]
  by (auto simp: Delete_advertisement_def avoids_def split: prod.splits option.splits fault.splits)

lemma GetForeignClusterByID_avoids:
  "avoids (writes_for cid) c (snd (GetForeignClusterByID clusterID c))"
  using List_fc_avoids [of "writes_for cid" "''cluster-id''" clusterID c]
  by (auto simp: GetForeignClusterByID_def writes_for_def
      split: prod.splits sum.splits runtime_Object.splits list.splits)

lemma GetForeignClusterByID_found:
  "GetForeignClusterByID clusterID c = (Inr fc, c') \<Longrightarrow> cluster_of fc = clusterID"
  by (auto simp: GetForeignClusterByID_def cluster_of_def dest!: List_fc_items
      split: prod.splits sum.splits runtime_Object.splits list.splits)

lemma cluster_of_newForeignCluster:
  "cluster_of (newForeignCluster txtData sd discoveryType) = txt_ID txtData"
  by (simp add: newForeignCluster_def cluster_of_def Let_def split: option.splits)

lemma createForeign_avoids:
  assumes "txt_ID txtData \<noteq> cid"
  shows "avoids (writes_for cid) c (snd (createForeign txtData sd discoveryType c))"
proof -
  have "avoids (writes_for cid) c (snd (Create_fc (newForeignCluster txtData sd discoveryType) c))"
    using assms by (intro Create_fc_avoids) (simp add: writes_for_def cluster_of_newForeignCluster)
  then show ?thesis
    by (auto simp: createForeign_def split: prod.splits sum.splits runtime_Object.splits)
qed

lemma createForeign_created:
  "createForeign txtData sd discoveryType c = (Inr fc, c') \<Longrightarrow> cluster_of fc = txt_ID txtData"
  by (auto simp: createForeign_def cluster_of_newForeignCluster dest!: Create_fc_answer
      split: prod.splits sum.splits runtime_Object.splits)

text \<open>
  The cluster a ForeignCluster stands for does not depend on the fields that the discovery
  assigns.
\<close>

lemma cluster_of_updates:
  "cluster_of (fc\<lparr>fc_ApiUrl := a\<rparr>) = cluster_of fc"
  "cluster_of (fc\<lparr>fc_Namespace := n\<rparr>) = cluster_of fc"
  "cluster_of (fc\<lparr>fc_DiscoveryType := d\<rparr>) = cluster_of fc"
  "cluster_of (fc\<lparr>fc_Join := j\<rparr>) = cluster_of fc"
  "cluster_of (fc\<lparr>fc_Ttl := t\<rparr>) = cluster_of fc"
  "cluster_of (fc\<lparr>fc_CaDataRef := r\<rparr>) = cluster_of fc"
  "cluster_of (fc\<lparr>fc_Advertisement := r\<rparr>) = cluster_of fc"
  by (simp_all add: cluster_of_def split: option.splits)

lemma CheckUpdate_foreign:
  assumes "cluster_of fc \<noteq> cid"
  shows "avoids (writes_for cid) c (snd (CheckUpdate discovery txtData fc discoveryType searchDomain c))
       \<and> (\<forall>fc'. fst (CheckUpdate discovery txtData fc discoveryType searchDomain c) = Inr fc' \<longrightarrow>
            cluster_of fc' = cluster_of fc)"
proof -
  have sec: "avoids (writes_for cid) c0 (snd (Delete_secret ns n c0))" for ns n c0
    by (intro Delete_secret_avoids) (simp add: writes_for_def)
  have adv: "avoids (writes_for cid) c0 (snd (Delete_advertisement n c0))" for n c0
    by (intro Delete_advertisement_avoids) (simp add: writes_for_def)
  have upd: "avoids (writes_for cid) c0 (snd (Update_fc n fc' c0))"
    if "cluster_of fc' = cluster_of fc" for n fc' c0
    using that assms by (intro Update_fc_avoids) (simp add: writes_for_def)
  show ?thesis
  proof (cases "fc_ApiUrl fc \<noteq> txt_ApiUrl txtData \<or> fc_Namespace fc \<noteq> txt_Namespace txtData
         \<or> HasHigherPriority discovery fc discoveryType")
    case False
    then show ?thesis by (simp add: CheckUpdate_def avoids_refl)
  next
    case True
    define fc1 where "fc1 = fc\<lparr> fc_ApiUrl := txt_ApiUrl txtData, fc_Namespace := txt_Namespace txtData,
                      fc_DiscoveryType := discoveryType \<rparr>"
    define fc2 where "fc2 = (case searchDomain of
                     Some s \<Rightarrow> if discoveryType = WanDiscovery then fc1\<lparr>fc_Join := sd_AutoJoin s\<rparr> else fc1
                   | None \<Rightarrow> fc1)"
    define r1 where "r1 = (case fc_CaDataRef fc2 of
                    Some ref \<Rightarrow> Delete_secret (ref_Namespace ref) (ref_Name ref) c
                  | None \<Rightarrow> (None, c))"
    have c2: "cluster_of fc2 = cluster_of fc"
      by (simp add: fc2_def fc1_def cluster_of_updates split: option.splits)
    have a1: "avoids (writes_for cid) c (snd r1)"
      using sec by (auto simp: r1_def avoids_refl split: option.splits)
    have unfold: "CheckUpdate discovery txtData fc discoveryType searchDomain c =
      (case r1 of
              (Some err, c1) \<Rightarrow> (Inl err, c1)
            | (None, c1) \<Rightarrow>
                (let fc = fc2\<lparr>fc_CaDataRef := None\<rparr>
                 in case Update_fc (fc_Name fc) fc c1 of
                      (Inl err, c2) \<Rightarrow> (Inl err, c2)
                    | (Inr tmp, c2) \<Rightarrow>
                        (case tmp of
                           ForeignClusterObj fc \<Rightarrow>
                             (case fc_Advertisement fc of
                                Some adv \<Rightarrow>
                                  (let advName = ref_Name adv;
                                       fc = fc\<lparr>fc_Advertisement := None\<rparr>
                                   in case Update_fc (fc_Name fc) fc c2 of
                                        (Inl err, c3) \<Rightarrow> (Inl err, c3)
                                      | (Inr tmp, c3) \<Rightarrow>
                                          (case tmp of
                                             ForeignClusterObj fc \<Rightarrow>
                                               (case Delete_advertisement advName c3 of
                                                  (Some err, c4) \<Rightarrow> (Inl err, c4)
                                                | (None, c4) \<Rightarrow> (Inr fc, c4))
                                           | _ \<Rightarrow>
                                               (Inl (PlainError ''retrieved object is not a ForeignCluster''), c3)))
                              | None \<Rightarrow> (Inr fc, c2))
                         | _ \<Rightarrow> (Inl (PlainError ''retrieved object is not a ForeignCluster''), c2))))"
      using True unfolding CheckUpdate_def r1_def fc2_def fc1_def Let_def by simp
    obtain e1 c1 where r1: "r1 = (e1, c1)" by (cases r1)
    with a1 have a1': "avoids (writes_for cid) c c1" by simp
    let ?fc3 = "fc2\<lparr>fc_CaDataRef := None\<rparr>"
    have c3: "cluster_of ?fc3 = cluster_of fc" using c2 by (simp add: cluster_of_updates)
    obtain t2 c2' where u1: "Update_fc (fc_Name ?fc3) ?fc3 c1 = (t2, c2')"
      by (cases "Update_fc (fc_Name ?fc3) ?fc3 c1")
    have a2: "avoids (writes_for cid) c c2'"
      using avoids_trans [OF a1' upd [OF c3, of c1 "fc_Name ?fc3"]] u1 by simp
    show ?thesis
    proof (cases e1)
      case (Some err)
      with r1 a1' show ?thesis by (simp add: unfold)
    next
      case None
      note e1 = this
      show ?thesis
      proof (cases t2)
        case (Inl err)
        with r1 e1 u1 a2 show ?thesis by (simp add: unfold Let_def)
      next
        case (Inr tmp)
        show ?thesis
        proof (cases tmp)
          case (ForeignClusterObj fc4)
          with u1 Inr have fc4: "fc4 = ?fc3" by (auto dest: Update_fc_answer)
          show ?thesis
          proof (cases "fc_Advertisement fc4")
            case None
            with r1 e1 u1 Inr ForeignClusterObj a2 c3 fc4 show ?thesis by (simp add: unfold Let_def)
          next
            case (Some advRef)
            let ?fc5 = "fc4\<lparr>fc_Advertisement := None\<rparr>"
            have c5: "cluster_of ?fc5 = cluster_of fc" using c3 fc4 by (simp add: cluster_of_updates)
            obtain t3 c3' where u2: "Update_fc (fc_Name ?fc5) ?fc5 c2' = (t3, c3')"
              by (cases "Update_fc (fc_Name ?fc5) ?fc5 c2'")
            have a3: "avoids (writes_for cid) c c3'"
              using avoids_trans [OF a2 upd [OF c5, of c2' "fc_Name ?fc5"]] u2 by simp
            have a4: "avoids (writes_for cid) c (snd (Delete_advertisement n c3'))" for n
              by (rule avoids_trans [OF a3 adv])
            have same: "CheckUpdate discovery txtData fc discoveryType searchDomain c =
               (case t3 of
                  Inl err \<Rightarrow> (Inl err, c3')
                | Inr tmp \<Rightarrow>
                    (case tmp of
                       ForeignClusterObj fc \<Rightarrow>
                         (case Delete_advertisement (ref_Name advRef) c3' of
                            (Some err, c4) \<Rightarrow> (Inl err, c4)
                          | (None, c4) \<Rightarrow> (Inr fc, c4))
                     | _ \<Rightarrow> (Inl (PlainError ''retrieved object is not a ForeignCluster''), c3')))"
              using r1 e1 u1 Inr ForeignClusterObj Some u2 by (simp add: unfold Let_def)
            show ?thesis
            proof (cases t3)
              case (Inl err)
              with a3 show ?thesis by (simp add: same)
            next
              case t3: (Inr tmp3)
              show ?thesis
              proof (cases tmp3)
                case (ForeignClusterObj fc6)
                with u2 t3 have "fc6 = ?fc5" by (auto dest: Update_fc_answer)
                with c5 have "cluster_of fc6 = cluster_of fc" by simp
                with a4 [of "ref_Name advRef"] t3 ForeignClusterObj show ?thesis
                  by (auto simp: same split: prod.splits option.splits)
              qed (use t3 a3 in \<open>simp_all add: same\<close>)
            qed
          qed
        qed (use r1 e1 u1 Inr a2 in \<open>simp_all add: unfold Let_def\<close>)
      qed
    qed
  qed
qed

text \<open>The loop over the TXT records skips the records of the local cluster.\<close>

lemma UpdateForeign_loop_filter:
  "UpdateForeign_loop discovery (filter (not_local discovery) data) sd discoveryType acc c
     = UpdateForeign_loop discovery data sd discoveryType acc c"
  by (induction data arbitrary: acc c)
     (simp_all add: not_local_def split: prod.splits sum.splits)

text \<open>The loop neither creates nor updates a ForeignCluster of the local cluster.\<close>

lemma UpdateForeign_loop_foreign:
  assumes "\<forall>fc \<in> set acc. cluster_of fc \<noteq> ClusterId discovery"
  shows "avoids (writes_for (ClusterId discovery)) c
           (snd (UpdateForeign_loop discovery data sd discoveryType acc c))
       \<and> (\<forall>fc \<in> set (fst (UpdateForeign_loop discovery data sd discoveryType acc c)).
            cluster_of fc \<noteq> ClusterId discovery)"
  using assms
proof (induction data arbitrary: acc c)
  case Nil
  then show ?case by (simp add: avoids_refl)
next
  case (Cons txtData data)
  let ?cid = "ClusterId discovery"
  show ?case
  proof (cases "txt_ID txtData = ?cid")
    case True
    with Cons show ?thesis by simp
  next
    case other: False
    obtain r1 c1 where g: "GetForeignClusterByID (txt_ID txtData) c = (r1, c1)"
      by (cases "GetForeignClusterByID (txt_ID txtData) c")
    have a1: "avoids (writes_for ?cid) c c1"
      using GetForeignClusterByID_avoids [of ?cid c "txt_ID txtData"] g by simp
    show ?thesis
    proof (cases r1)
      case (Inl err)
      show ?thesis
      proof (cases "IsNotFound (Some err)")
        case False
        with other g Inl Cons.IH [OF Cons.prems, of c1] a1 show ?thesis
          by (auto intro: avoids_trans)
      next
        case True
        obtain r2 c2 where cr: "createForeign txtData sd discoveryType c1 = (r2, c2)"
          by (cases "createForeign txtData sd discoveryType c1")
        have a2: "avoids (writes_for ?cid) c c2"
          using avoids_trans [OF a1 createForeign_avoids [OF other, of c1 sd discoveryType]] cr by simp
        show ?thesis
        proof (cases r2)
          case (Inl err2)
          with other g \<open>r1 = Inl err\<close> True cr Cons.IH [OF Cons.prems, of c2] a2 show ?thesis
            by (auto intro: avoids_trans)
        next
          case (Inr fc)
          with cr have "cluster_of fc \<noteq> ?cid"
            using createForeign_created other by auto
          with Cons.prems have "\<forall>x \<in> set (acc @ [fc]). cluster_of x \<noteq> ?cid" by simp
          from Cons.IH [OF this, of c2] other g \<open>r1 = Inl err\<close> True cr Inr a2 show ?thesis
            by (auto intro: avoids_trans)
        qed
      qed
    next
      case (Inr fc)
      with g have cf: "cluster_of fc \<noteq> ?cid"
        using GetForeignClusterByID_found other by auto
      obtain r2 c2 where cu: "CheckUpdate discovery txtData fc discoveryType sd c1 = (r2, c2)"
        by (cases "CheckUpdate discovery txtData fc discoveryType sd c1")
      from CheckUpdate_foreign [OF cf, of c1 discovery txtData discoveryType sd] cu
      have a2': "avoids (writes_for ?cid) c1 c2"
        and res: "\<forall>fc'. r2 = Inr fc' \<longrightarrow> cluster_of fc' = cluster_of fc" by simp_all
      have a2: "avoids (writes_for ?cid) c c2" by (rule avoids_trans [OF a1 a2'])
      show ?thesis
      proof (cases r2)
        case (Inl err2)
        with other g Inr cu Cons.IH [OF Cons.prems, of c2] a2 show ?thesis
          by (auto intro: avoids_trans)
      next
        case r2: (Inr fc')
        with res cf have "cluster_of fc' \<noteq> ?cid" by simp
        with Cons.prems have "\<forall>x \<in> set (acc @ [fc']). cluster_of x \<noteq> ?cid" by simp
        from Cons.IH [OF this, of c2] other g Inr cu r2 a2 show ?thesis
          by (auto intro: avoids_trans)
      qed
    qed
  qed
qed

lemma writes_for_creates: "creates_for cid a \<Longrightarrow> writes_for cid a"
  by (cases a) (simp_all add: creates_for_def writes_for_def)

lemma avoids_weaken: "avoids P c c' \<Longrightarrow> (\<And>a. Q a \<Longrightarrow> P a) \<Longrightarrow> avoids Q c c'"
  by (auto simp: avoids_def)

lemma ttl_refresh_avoids:
  "avoids (creates_for cid) c (snd (snd (ttl_refresh txts fc c)))"
proof (induction txts arbitrary: fc c)
  case Nil
  show ?case by (simp add: avoids_refl)
next
  case (Cons entry txts)
  have upd: "avoids (creates_for cid) c0 (snd (Update_fc n fc' c0))" for n fc' c0
    by (intro Update_fc_avoids) (simp add: creates_for_def)
  show ?case
  proof (cases "txt_ID entry = fc_ClusterID fc \<and> fc_Ttl fc \<noteq> 3")
    case False
    with Cons show ?thesis by (auto simp: avoids_refl)
  next
    case True
    let ?fc = "fc\<lparr>fc_Ttl := 3\<rparr>"
    obtain r c' where u: "Update_fc (fc_Name ?fc) ?fc c = (r, c')"
      by (cases "Update_fc (fc_Name ?fc) ?fc c")
    with upd [of c "fc_Name ?fc" ?fc] have a: "avoids (creates_for cid) c c'" by simp
    show ?thesis
    proof (cases r)
      case (Inl err)
      with True u avoids_trans [OF a Cons.IH [of c' ?fc]] show ?thesis
        by (auto simp: Let_def split: prod.splits)
    next
      case (Inr obj)
      with True u a show ?thesis by (simp add: Let_def)
    qed
  qed
qed

lemma ttl_items_avoids:
  "avoids (creates_for cid) c (ttl_items txts items c)"
proof (induction items arbitrary: c)
  case Nil
  show ?case by (simp add: avoids_refl)
next
  case (Cons item items)
  obtain found fc c1 where r: "ttl_refresh txts item c = (found, fc, c1)"
    by (cases "ttl_refresh txts item c")
  with ttl_refresh_avoids [of cid c txts item] have a1: "avoids (creates_for cid) c c1" by simp
  have upd: "avoids (creates_for cid) c1 (snd (Update_fc n fc' c1))" for n fc'
    by (intro Update_fc_avoids) (simp add: creates_for_def)
  have del: "avoids (creates_for cid) c1 (snd (Delete_fc n c1))" for n
    by (intro Delete_fc_avoids) (simp add: creates_for_def)
  show ?case
  proof (cases found)
    case True
    with r avoids_trans [OF a1 Cons.IH [of c1]] show ?thesis by simp
  next
    case False
    let ?fc = "fc\<lparr>fc_Ttl := fc_Ttl fc - 1\<rparr>"
    show ?thesis
    proof (cases "fc_Ttl ?fc \<le> 0")
      case True
      obtain e c2 where d: "Delete_fc (fc_Name ?fc) c1 = (e, c2)"
        by (cases "Delete_fc (fc_Name ?fc) c1")
      with del [of "fc_Name ?fc"] have "avoids (creates_for cid) c1 c2" by simp
      from avoids_trans [OF avoids_trans [OF a1 this] Cons.IH [of c2]] r False True d
      show ?thesis by (simp add: Let_def)
    next
      case big: False
      obtain e c2 where u: "Update_fc (fc_Name ?fc) ?fc c1 = (e, c2)"
        by (cases "Update_fc (fc_Name ?fc) ?fc c1")
      with upd [of "fc_Name ?fc" ?fc] have "avoids (creates_for cid) c1 c2" by simp
      from avoids_trans [OF avoids_trans [OF a1 this] Cons.IH [of c2]] r False big u
      show ?thesis by (simp add: Let_def)
    qed
  qed
qed

lemma UpdateTtl_avoids: "avoids (creates_for cid) c (snd (UpdateTtl txts c))"
proof -
  obtain r c' where l: "List_fc ''discovery-type'' ''LAN'' c = (r, c')"
    by (cases "List_fc ''discovery-type'' ''LAN'' c")
  with List_fc_avoids [of "creates_for cid" "''discovery-type''" "''LAN''" c]
  have a: "avoids (creates_for cid) c c'" by (simp add: creates_for_def)
  show ?thesis
    using l a avoids_trans [OF a ttl_items_avoids]
    by (auto simp: UpdateTtl_def split: sum.splits runtime_Object.splits)
qed

lemmas discovery_defs = UpdateForeign_def UpdateTtl_def GetForeignClusterByID_def createForeign_def
  newForeignCluster_def CheckUpdate_def List_fc_def Create_fc_def Update_fc_def Delete_fc_def
  Delete_secret_def Delete_advertisement_def api_call_def answer_def Let_def IsNotFound_def

lemmas discovery_scenario_defs = home_ctrl_def home_txt_def peer_txt_def home_cluster_def
  search_domain_def cluster_with_def

text \<open>
  C9, as stated, fails: with a LAN ForeignCluster of the local cluster's own ID in the
  store, a TXT record with that ID makes UpdateForeign update that ForeignCluster (the TTL
  pass resets its TTL); without the record the same call lets it expire.
\<close>

theorem UpdateForeign_counterexample:
  "txt_ID home_txt = ClusterId home_ctrl
   \<and> cluster_of home_cluster = ClusterId home_ctrl
   \<and> made (cluster_with [home_cluster]) (snd (UpdateForeign home_ctrl [home_txt] None (cluster_with [home_cluster])))
       = [ListCall ''discovery-type'' ''LAN'', UpdateFC ''home'' (home_cluster\<lparr>fc_Ttl := 3\<rparr>)]
   \<and> writes_for (ClusterId home_ctrl) (UpdateFC ''home'' (home_cluster\<lparr>fc_Ttl := 3\<rparr>))
   \<and> foreignclusters (snd (UpdateForeign home_ctrl [home_txt] None (cluster_with [home_cluster])))
       = [home_cluster\<lparr>fc_Ttl := 3\<rparr>]
   \<and> made (cluster_with [home_cluster]) (snd (UpdateForeign home_ctrl [] None (cluster_with [home_cluster])))
       = [ListCall ''discovery-type'' ''LAN'', DeleteFC ''home'']"
  by (simp add: discovery_defs discovery_scenario_defs made_def writes_for_def cluster_of_def)

text \<open>
  C9, amended. For every input list of TXT records, UpdateForeign never creates a
  ForeignCluster for a record whose ID equals the local cluster's own cluster ID, and its
  loop over the records never updates one: the loop runs exactly as on the list without
  those records, none of its calls creates or updates a ForeignCluster of the local
  cluster, and the returned list, which is the same as for the list without those
  records, holds no ForeignCluster of the local cluster. With a search domain (WAN
  discovery) all of UpdateForeign runs as on the list without those records. Only the TTL
  pass of the LAN discovery still matches such a record against the stored LAN
  ForeignClusters.
\<close>

theorem UpdateForeign_skips_local:
  "UpdateForeign_loop discovery (filter (not_local discovery) data) sd discoveryType [] c
     = UpdateForeign_loop discovery data sd discoveryType [] c
   \<and> fst (UpdateForeign discovery (filter (not_local discovery) data) sd c)
       = fst (UpdateForeign discovery data sd c)
   \<and> (sd \<noteq> None \<longrightarrow>
        UpdateForeign discovery (filter (not_local discovery) data) sd c
          = UpdateForeign discovery data sd c)
   \<and> (\<forall>a \<in> set (made c (snd (UpdateForeign_loop discovery data sd discoveryType [] c))).
        \<not> writes_for (ClusterId discovery) a)
   \<and> (\<forall>a \<in> set (made c (snd (UpdateForeign discovery data sd c))).
        \<not> creates_for (ClusterId discovery) a)
   \<and> (\<forall>fc \<in> set (fst (UpdateForeign discovery data sd c)).
        cluster_of fc \<noteq> ClusterId discovery)"
proof -
  let ?cid = "ClusterId discovery"
  have loop: "avoids (writes_for ?cid) c0 (snd (UpdateForeign_loop discovery data sd dt [] c0))
       \<and> (\<forall>fc \<in> set (fst (UpdateForeign_loop discovery data sd dt [] c0)). cluster_of fc \<noteq> ?cid)" for dt c0
    by (rule UpdateForeign_loop_foreign) simp
  have whole: "avoids (creates_for ?cid) c (snd (UpdateForeign discovery data sd c))"
  proof -
    let ?dt = "if sd = None then LanDiscovery else WanDiscovery"
    obtain acc c' where l: "UpdateForeign_loop discovery data sd ?dt [] c = (acc, c')"
      by (cases "UpdateForeign_loop discovery data sd ?dt [] c")
    with loop [of c ?dt] have "avoids (writes_for ?cid) c c'" by simp
    then have a: "avoids (creates_for ?cid) c c'"
      by (rule avoids_weaken) (rule writes_for_creates)
    from l a avoids_trans [OF a UpdateTtl_avoids [of ?cid c' data]] show ?thesis
      by (simp add: UpdateForeign_def Let_def)
  qed
  have returned: "fst (UpdateForeign discovery xs sd c)
      = fst (UpdateForeign_loop discovery xs sd (if sd = None then LanDiscovery else WanDiscovery) [] c)" for xs
    by (simp add: UpdateForeign_def Let_def split: prod.splits)
  show ?thesis
    using loop [of c discoveryType] loop [of c "if sd = None then LanDiscovery else WanDiscovery"]
      avoids_made [OF whole]
    by (auto simp: UpdateForeign_loop_filter returned dest: avoids_made)
       (simp add: UpdateForeign_def Let_def UpdateForeign_loop_filter)
qed

theorem UpdateForeign_skips_local_witness:
  "Some search_domain \<noteq> None
   \<and> filter (not_local home_ctrl) [home_txt, peer_txt] = [peer_txt]
   \<and> UpdateForeign home_ctrl [peer_txt] (Some search_domain) (cluster_with [])
       = UpdateForeign home_ctrl [home_txt, peer_txt] (Some search_domain) (cluster_with [])
   \<and> made (cluster_with []) (snd (UpdateForeign home_ctrl [home_txt, peer_txt] (Some search_domain) (cluster_with [])))
       = [ListCall ''cluster-id'' ''peer-id'',
          CreateFC (newForeignCluster peer_txt (Some search_domain) WanDiscovery)]
   \<and> \<not> writes_for (ClusterId home_ctrl) (CreateFC (newForeignCluster peer_txt (Some search_domain) WanDiscovery))
   \<and> fst (UpdateForeign home_ctrl [home_txt, peer_txt] (Some search_domain) (cluster_with []))
       = [newForeignCluster peer_txt (Some search_domain) WanDiscovery]
   \<and> cluster_of (newForeignCluster peer_txt (Some search_domain) WanDiscovery) \<noteq> ClusterId home_ctrl"
proof -
  have f: "filter (not_local home_ctrl) [home_txt, peer_txt] = [peer_txt]"
    by (simp add: not_local_def discovery_scenario_defs)
  have run: "UpdateForeign home_ctrl [home_txt, peer_txt] (Some search_domain) (cluster_with [])
      = ([newForeignCluster peer_txt (Some search_domain) WanDiscovery],
         \<lparr> foreignclusters = [newForeignCluster peer_txt (Some search_domain) WanDiscovery],
           secrets = [], advertisements = [], script = [],
           calls = [ListCall ''cluster-id'' ''peer-id'',
                    CreateFC (newForeignCluster peer_txt (Some search_domain) WanDiscovery)] \<rparr>)"
    by (simp add: UpdateForeign_def GetForeignClusterByID_def createForeign_def
        List_fc_def Create_fc_def api_call_def answer_def Let_def IsNotFound_def
        discovery_scenario_defs)
  from UpdateForeign_skips_local [of home_ctrl "[home_txt, peer_txt]" "Some search_domain"
      WanDiscovery "cluster_with []"] f run
  show ?thesis
    by (simp add: made_def cluster_with_def writes_for_def)
qed

end
